theory Spec2Isabelle
  imports Main "HOL-Library.Sublist" "HOL-Library.Multiset"
begin

section \<open>Errors\<close>

text \<open>
  The plugin raises plain JavaScript errors (\<^verbatim>\<open>new Error(msg)\<close>), Puppeteer raises its
  timeout error when a wait expires, and the command base class raises a command error
  from \<^verbatim>\<open>this.error(msg)\<close>. Every one of them is an \<^verbatim>\<open>Error\<close> instance, so
  \<^verbatim>\<open>error instanceof Error ? error.message : String(error)\<close> reads its message.
\<close>

datatype error = Error string | TimeoutError string | CLIError string

fun messageOf :: "error \<Rightarrow> string" where
  "messageOf (Error m) = m"
| "messageOf (TimeoutError m) = m"
| "messageOf (CLIError m) = m"

section \<open>The browser as the automation sees it\<close>

text \<open>
  A selector is an opaque string; a DOM maps a selector to the first element it matches,
  \<open>None\<close> when no such element appears before the wait expires. An element carries the
  two properties the plugin reads, \<^verbatim>\<open>checked\<close> and \<^verbatim>\<open>textContent\<close>, and what a click does
  to \<^verbatim>\<open>checked\<close>. The source's cast to \<^verbatim>\<open>HTMLInputElement\<close> is not checked when the code
  runs: an element that has no such property reads \<^verbatim>\<open>undefined\<close>, here \<open>None\<close>. A click flips
  the property of an enabled checkbox, sets it on a radio button, and leaves it as it is
  on a disabled control, a text input or any other element.
\<close>

datatype click_effect = Toggles | Checks | NoEffect

fun afterClick :: "click_effect \<Rightarrow> bool option \<Rightarrow> bool option" where
  "afterClick Toggles (Some b) = Some (\<not> b)"
| "afterClick Checks (Some b) = Some True"
| "afterClick effect state = state"

record element =
  checked :: "bool option"
  textContent :: string
  clickEffect :: click_effect

type_synonym dom = "string \<rightharpoonup> element"

record document =
  top :: dom
  setupFrame :: "dom option"
  networkIdle :: bool

datatype frame_ctx = Top | Frame

datatype event =
    Launched
  | Closed
  | Navigated string
  | Clicked frame_ctx string
  | TripleClicked frame_ctx string
  | Typed frame_ctx string string
  | Selected frame_ctx string string
  | Pressed string

text \<open>
  The world holds what the environment decides (the error, if any, with which launching
  and closing the browser fail; the document a URL serves, or the error the navigation
  ends with; what the platform's URL parser gives for \<^verbatim>\<open>new URL(u).origin\<close>, a string or
  the error it throws), the \<^verbatim>\<open>browser\<close> field of \<^verbatim>\<open>BrowserManager\<close>
  (\<open>True\<close> for a live handle, \<open>False\<close> for \<^verbatim>\<open>null\<close>), the page's URL and document, and the
  log of interactions performed on the browser.
\<close>

record world =
  launchError :: "error option"
  closeError :: "error option"
  site :: "string \<Rightarrow> error + document"
  urlOrigin :: "string \<Rightarrow> error + string"
  browser :: bool
  url :: string
  doc :: document
  log :: "event list"

section \<open>Asynchronous code as state passing with errors\<close>

text \<open>
  An awaited computation takes the state and returns either the error it threw or its
  value, with the state it left behind. The same combinators serve the page helpers
  (state: the world) and the command (state: its local variables and the world).
\<close>

type_synonym ('s, 'a) comp = "'s \<Rightarrow> (error + 'a) \<times> 's"

type_synonym 'a io = "(world, 'a) comp"

definition return_io :: "'a \<Rightarrow> ('s, 'a) comp" where
  "return_io x s = (Inr x, s)"

definition throw_io :: "error \<Rightarrow> ('s, 'a) comp" where
  "throw_io e s = (Inl e, s)"

definition bind_io :: "('s, 'a) comp \<Rightarrow> ('a \<Rightarrow> ('s, 'b) comp) \<Rightarrow> ('s, 'b) comp" where
  "bind_io m f s = (case m s of (Inl e, s') \<Rightarrow> (Inl e, s') | (Inr x, s') \<Rightarrow> f x s')"

text \<open>A block of awaited statements: the first one that throws ends the block.\<close>

fun block :: "('s, unit) comp list \<Rightarrow> ('s, unit) comp" where
  "block [] = return_io ()"
| "block (m # ms) = bind_io m (\<lambda>_. block ms)"

definition when_io :: "bool \<Rightarrow> ('s, unit) comp \<Rightarrow> ('s, unit) comp" where
  "when_io c m = (if c then m else return_io ())"

text \<open>
  \<^verbatim>\<open>if (x !== undefined) { ... x ... }\<close>, and \<^verbatim>\<open>if (x) { ... }\<close> for an object or an array,
  which is truthy whenever it is present.
\<close>

definition whenDefined :: "'a option \<Rightarrow> ('a \<Rightarrow> ('s, unit) comp) \<Rightarrow> ('s, unit) comp" where
  "whenDefined x f = (case x of None \<Rightarrow> return_io () | Some v \<Rightarrow> f v)"

text \<open>\<^verbatim>\<open>for (const x of xs) { ... }\<close>\<close>

definition forEach :: "'a list \<Rightarrow> ('a \<Rightarrow> ('s, unit) comp) \<Rightarrow> ('s, unit) comp" where
  "forEach xs f = block (map f xs)"

text \<open>\<^verbatim>\<open>promise.catch(() => {})\<close>: the effect stays, the error is dropped.\<close>

definition swallow :: "('s, 'a) comp \<Rightarrow> ('s, unit) comp" where
  "swallow m s = (Inr (), snd (m s))"

definition discard :: "('s, 'a) comp \<Rightarrow> ('s, unit) comp" where
  "discard m = bind_io m (\<lambda>_. return_io ())"

text \<open>\<^verbatim>\<open>try { m } catch (error) { h error }\<close>\<close>

definition tryCatch :: "('s, 'a) comp \<Rightarrow> (error \<Rightarrow> ('s, 'a) comp) \<Rightarrow> ('s, 'a) comp" where
  "tryCatch m h s = (case m s of (Inl e, s') \<Rightarrow> h e s' | (Inr x, s') \<Rightarrow> (Inr x, s'))"

text \<open>
  \<^verbatim>\<open>try { m } finally { fin }\<close>: the finally block always runs; when it throws, its error
  replaces whatever the try block returned or threw.
\<close>

definition tryFinally :: "('s, 'a) comp \<Rightarrow> ('s, unit) comp \<Rightarrow> ('s, 'a) comp" where
  "tryFinally m fin s =
     (case m s of (r, s') \<Rightarrow>
        (case fin s' of (Inl e, s'') \<Rightarrow> (Inl e, s'') | (Inr _, s'') \<Rightarrow> (r, s'')))"

definition emit :: "event \<Rightarrow> unit io" where
  "emit ev w = (Inr (), w\<lparr>log := log w @ [ev]\<rparr>)"

subsection \<open>Page primitives\<close>

definition domOf :: "frame_ctx \<Rightarrow> document \<Rightarrow> dom" where
  "domOf c d = (case c of Top \<Rightarrow> top d
                | Frame \<Rightarrow> (case setupFrame d of None \<Rightarrow> Map.empty | Some f \<Rightarrow> f))"

definition setDom :: "frame_ctx \<Rightarrow> dom \<Rightarrow> document \<Rightarrow> document" where
  "setDom c m d = (case c of Top \<Rightarrow> d\<lparr>top := m\<rparr> | Frame \<Rightarrow> d\<lparr>setupFrame := Some m\<rparr>)"

text \<open>\<^verbatim>\<open>page.waitForSelector(selector)\<close>: the element, or a timeout error.\<close>

definition waitForSelector :: "frame_ctx \<Rightarrow> string \<Rightarrow> element io" where
  "waitForSelector c sel w =
     (case domOf c (doc w) sel of
        None \<Rightarrow> (Inl (TimeoutError (''Waiting for selector failed: '' @ sel)), w)
      | Some el \<Rightarrow> (Inr el, w))"

text \<open>\<^verbatim>\<open>page.$(selector)\<close>: the element or \<^verbatim>\<open>null\<close>, never an error.\<close>

definition query :: "frame_ctx \<Rightarrow> string \<Rightarrow> element option io" where
  "query c sel w = (Inr (domOf c (doc w) sel), w)"

text \<open>
  \<^verbatim>\<open>handle.click()\<close> on the element a selector resolved to. The click is logged and
  changes the element's \<^verbatim>\<open>checked\<close> property as the element's kind has it.
\<close>

definition clickHandle :: "frame_ctx \<Rightarrow> string \<Rightarrow> unit io" where
  "clickHandle c sel w =
     (case domOf c (doc w) sel of
        None \<Rightarrow> (Inr (), w)
      | Some el \<Rightarrow>
          (Inr (), w\<lparr>doc := setDom c ((domOf c (doc w))
                                        (sel \<mapsto> el\<lparr>checked := afterClick (clickEffect el) (checked el)\<rparr>))
                                   (doc w),
                     log := log w @ [Clicked c sel]\<rparr>))"

text \<open>\<^verbatim>\<open>page.click(selector)\<close> looks the element up itself and throws when there is none.\<close>

definition pageClick :: "frame_ctx \<Rightarrow> string \<Rightarrow> unit io" where
  "pageClick c sel w =
     (case domOf c (doc w) sel of
        None \<Rightarrow> (Inl (Error (''No element found for selector: '' @ sel)), w)
      | Some el \<Rightarrow> clickHandle c sel w)"

definition pageTripleClick :: "frame_ctx \<Rightarrow> string \<Rightarrow> unit io" where
  "pageTripleClick c sel w =
     (case domOf c (doc w) sel of
        None \<Rightarrow> (Inl (Error (''No element found for selector: '' @ sel)), w)
      | Some el \<Rightarrow> emit (TripleClicked c sel) w)"

definition pageType :: "frame_ctx \<Rightarrow> string \<Rightarrow> string \<Rightarrow> unit io" where
  "pageType c sel v w =
     (case domOf c (doc w) sel of
        None \<Rightarrow> (Inl (Error (''No element found for selector: '' @ sel)), w)
      | Some el \<Rightarrow> emit (Typed c sel v) w)"

definition pageSelect :: "frame_ctx \<Rightarrow> string \<Rightarrow> string \<Rightarrow> unit io" where
  "pageSelect c sel v w =
     (case domOf c (doc w) sel of
        None \<Rightarrow> (Inl (Error (''No element found for selector: '' @ sel)), w)
      | Some el \<Rightarrow> emit (Selected c sel v) w)"

definition waitForNetworkIdle :: "unit io" where
  "waitForNetworkIdle w =
     (if networkIdle (doc w) then (Inr (), w)
      else (Inl (TimeoutError ''Timed out waiting for network idle''), w))"

text \<open>
  \<^verbatim>\<open>page.goto(url, { waitUntil: 'networkidle2' })\<close>: the page shows the document the site
  serves at the URL and stays at that URL (redirects are not modelled), or the navigation
  throws and the page stays as it was.
\<close>

definition goto :: "string \<Rightarrow> unit io" where
  "goto u w =
     (case site w u of
        Inl e \<Rightarrow> (Inl e, w\<lparr>log := log w @ [Navigated u]\<rparr>)
      | Inr d \<Rightarrow> (Inr (), w\<lparr>url := u, doc := d, log := log w @ [Navigated u]\<rparr>))"

section \<open>SalesforceUI helpers\<close>

text \<open>\<^verbatim>\<open>String.prototype.includes\<close>\<close>

fun str_includes :: "string \<Rightarrow> string \<Rightarrow> bool" where
  "str_includes [] t = (t = [])"
| "str_includes (c # s) t = (prefix t (c # s) \<or> str_includes s t)"

definition buttonSelector :: "string \<Rightarrow> string" where
  "buttonSelector label =
     ''button:has-text(\"'' @ label @ ''\"), lightning-button:has-text(\"'' @ label
       @ ''\"), a.slds-button:has-text(\"'' @ label @ ''\")''"

definition clickButton :: "frame_ctx \<Rightarrow> string \<Rightarrow> unit io" where
  "clickButton page label =
     bind_io (waitForSelector page (buttonSelector label)) (\<lambda>button.
       clickHandle page (buttonSelector label))"

definition setInput :: "frame_ctx \<Rightarrow> string \<Rightarrow> string \<Rightarrow> unit io" where
  "setInput page selector v =
     block [discard (waitForSelector page selector),
            pageTripleClick page selector,
            pageType page selector v]"

text \<open>
  \<^verbatim>\<open>isChecked !== checked\<close> compares what the element gave, a boolean or \<^verbatim>\<open>undefined\<close>, with
  the boolean asked for.
\<close>

definition setCheckbox :: "frame_ctx \<Rightarrow> string \<Rightarrow> bool \<Rightarrow> unit io" where
  "setCheckbox page selector desired =
     bind_io (waitForSelector page selector) (\<lambda>checkbox.
       let isChecked = checked checkbox in
       if isChecked \<noteq> Some desired then clickHandle page selector else return_io ())"

definition selectOption :: "frame_ctx \<Rightarrow> string \<Rightarrow> string \<Rightarrow> unit io" where
  "selectOption page selector v =
     block [discard (waitForSelector page selector),
            pageSelect page selector v]"

definition toastSelector :: string where
  "toastSelector = ''.toastMessage, .slds-notify__content''"

text \<open>
  \<^verbatim>\<open>expectedMessage && !message.includes(expectedMessage)\<close>: an absent or empty
  expectation is falsy and never fails the wait.
\<close>

definition waitForToast :: "frame_ctx \<Rightarrow> string option \<Rightarrow> string io" where
  "waitForToast page expectedMessage =
     bind_io (waitForSelector page toastSelector) (\<lambda>toast.
       let message = textContent toast in
       (case expectedMessage of
          None \<Rightarrow> return_io message
        | Some expected \<Rightarrow>
            if expected \<noteq> [] \<and> \<not> str_includes message expected
            then throw_io (Error (''Expected toast \"'' @ expected @ ''\" but got \"'' @ message @ ''\"''))
            else return_io message))"

section \<open>BrowserManager\<close>

text \<open>
  The connection of the target org comes from the Salesforce core library; its two
  fields may be absent. JavaScript's \<^verbatim>\<open>!x\<close> holds for an absent and for an empty string.
\<close>

record connection =
  instanceUrl :: "string option"
  accessToken :: "string option"

record SalesforceSession =
  sessionInstanceUrl :: string
  sessionAccessToken :: string

definition falsy :: "string option \<Rightarrow> bool" where
  "falsy x = (case x of None \<Rightarrow> True | Some v \<Rightarrow> v = [])"

definition emptyDocument :: document where
  "emptyDocument = \<lparr>top = Map.empty, setupFrame = None, networkIdle = True\<rparr>"

text \<open>
  \<^verbatim>\<open>puppeteer.launch\<close> followed by \<^verbatim>\<open>browser.newPage\<close>: the manager's \<^verbatim>\<open>browser\<close> field
  becomes live and the new page is blank. Viewport and default timeout change nothing
  that the model observes.
\<close>

definition launch :: "unit io" where
  "launch w =
     (case launchError w of
        Some e \<Rightarrow> (Inl e, w)
      | None \<Rightarrow> (Inr (), w\<lparr>browser := True, url := ''about:blank'', doc := emptyDocument,
                             log := log w @ [Launched]\<rparr>))"

definition frontdoorUrl :: "string \<Rightarrow> string \<Rightarrow> string" where
  "frontdoorUrl instUrl token = instUrl @ ''/secur/frontdoor.jsp?sid='' @ token"

text \<open>
  \<^verbatim>\<open>document.querySelector('.slds-global-header') !== null ||
  document.querySelector('#phHeaderLogoImage') !== null\<close>, evaluated in the top document.
\<close>

definition isLoggedIn :: "bool io" where
  "isLoggedIn w =
     (Inr (top (doc w) ''.slds-global-header'' \<noteq> None \<or> top (doc w) ''#phHeaderLogoImage'' \<noteq> None), w)"

definition connect :: "connection \<Rightarrow> SalesforceSession io" where
  "connect org =
     (if falsy (instanceUrl org) \<or> falsy (accessToken org)
      then throw_io (Error ''Unable to get Salesforce session. Please authenticate first.'')
      else
        bind_io launch (\<lambda>_.
        bind_io (goto (frontdoorUrl (the (instanceUrl org)) (the (accessToken org)))) (\<lambda>_.
        bind_io isLoggedIn (\<lambda>loggedIn.
          if \<not> loggedIn then throw_io (Error ''Failed to authenticate to Salesforce'')
          else return_io \<lparr>sessionInstanceUrl = the (instanceUrl org),
                           sessionAccessToken = the (accessToken org)\<rparr>))))"

text \<open>
  \<^verbatim>\<open>new URL(currentUrl).origin\<close> is the platform's: the world says what it gives, and the
  error it throws for a string that is no URL ends \<^verbatim>\<open>getSetupUrl\<close>.
\<close>

definition getSetupUrl :: "string \<Rightarrow> string io" where
  "getSetupUrl setupPath w =
     (let currentUrl = url w in
      case urlOrigin w currentUrl of
        Inl e \<Rightarrow> (Inl e, w)
      | Inr baseUrl \<Rightarrow>
          if prefix ''/lightning/'' setupPath then (Inr (baseUrl @ setupPath), w)
          else (Inr (baseUrl @ ''/lightning/setup/'' @ setupPath @ ''/home''), w))"

text \<open>\<^verbatim>\<open>page.waitForSelector(selector, { hidden: true })\<close>\<close>

definition waitForHidden :: "frame_ctx \<Rightarrow> string \<Rightarrow> unit io" where
  "waitForHidden c sel w =
     (case domOf c (doc w) sel of
        None \<Rightarrow> (Inr (), w)
      | Some el \<Rightarrow> (Inl (TimeoutError (''Waiting for selector failed: '' @ sel)), w))"

definition waitForSetupPageLoad :: "unit io" where
  "waitForSetupPageLoad =
     block [swallow (waitForHidden Top ''.slds-spinner''),
            swallow (waitForSelector Top ''.setupcontent, .setup-content, [class*=\"setup\"]''),
            swallow waitForNetworkIdle]"

definition navigateToSetup :: "string \<Rightarrow> unit io" where
  "navigateToSetup setupPath =
     bind_io (getSetupUrl setupPath) (\<lambda>setupUrl.
       block [goto setupUrl, waitForSetupPageLoad])"

text \<open>
  \<^verbatim>\<open>getSetupIframe\<close>: the frame's context when the page holds a setup frame, the page
  itself otherwise.
\<close>

definition getSetupIframe :: "frame_ctx io" where
  "getSetupIframe w = (case setupFrame (doc w) of None \<Rightarrow> (Inr Top, w) | Some f \<Rightarrow> (Inr Frame, w))"

definition disconnect :: "unit io" where
  "disconnect w =
     (if browser w then
        (case closeError w of
           Some e \<Rightarrow> (Inl e, w)
         | None \<Rightarrow> (Inr (), w\<lparr>browser := False, log := log w @ [Closed]\<rparr>))
      else (Inr (), w))"

section \<open>SetupAutomations\<close>

text \<open>
  The option objects of the automation methods. An optional field is \<open>None\<close> when it is
  \<^verbatim>\<open>undefined\<close>. The two \<^verbatim>\<open>enabled\<close> fields carry the name of their object, a field name
  being one constant for the whole theory.
\<close>

record eac_options =
  eacEnabled :: bool
  captureEmails :: "bool option"
  captureEvents :: "bool option"

text \<open>
  A JavaScript number is carried as the text \<^verbatim>\<open>Number.prototype.toString\<close> gives for it,
  the only thing the automations do with one.
\<close>

datatype js_number = Number string

fun numberToString :: "js_number \<Rightarrow> string" where
  "numberToString (Number text) = text"

record session_options =
  sessionTimeout :: "js_number option"
  forceLogoutOnSessionTimeout :: "bool option"
  lockSessionsToIp :: "bool option"
  requireHttpOnly :: "bool option"
  requireSecureConnections :: "bool option"

record email_options =
  displayName :: string
  emailAddress :: string
  allowAllProfiles :: bool

record omni_options =
  omniEnabled :: bool
  enableSkillBasedRouting :: "bool option"
  enableExternalRouting :: "bool option"

datatype access = Private | PublicReadOnly | PublicReadWrite | ControlledByParent

fun accessText :: "access \<Rightarrow> string" where
  "accessText Private = ''Private''"
| "accessText PublicReadOnly = ''Public Read Only''"
| "accessText PublicReadWrite = ''Public Read/Write''"
| "accessText ControlledByParent = ''Controlled by Parent''"

record sharing_options =
  objectName :: string
  internalAccess :: access
  externalAccess :: "access option"
  grantAccessUsingHierarchies :: "bool option"

record flow_options =
  flowApiName :: string
  activate :: bool

text \<open>
  The decimal digits of an array length in a template string: a length is a whole number
  below \<open>2^32\<close>, for which the digits are what JavaScript prints.
\<close>

fun digitsOf :: "nat \<Rightarrow> string" where
  "digitsOf n =
     (if n < 10 then [char_of (48 + n)] else digitsOf (n div 10) @ [char_of (48 + n mod 10)])"

declare digitsOf.simps [simp del]

definition configureEinsteinActivityCapture :: "eac_options \<Rightarrow> unit io" where
  "configureEinsteinActivityCapture options =
     block [
       navigateToSetup ''ActivitySyncEngineSettings'',
       bind_io getSetupIframe (\<lambda>setupPage. block [
         setCheckbox setupPage ''input[type=\"checkbox\"][id*=\"activityCapture\"]'' (eacEnabled options),
         when_io (eacEnabled options) (block [
           whenDefined (captureEmails options)
             (setCheckbox setupPage ''input[type=\"checkbox\"][id*=\"emailCapture\"]''),
           whenDefined (captureEvents options)
             (setCheckbox setupPage ''input[type=\"checkbox\"][id*=\"eventCapture\"]'')]),
         clickButton setupPage ''Save'',
         discard (waitForToast setupPage None)])]"

definition configureSessionSettings :: "session_options \<Rightarrow> unit io" where
  "configureSessionSettings options =
     block [
       navigateToSetup ''SecuritySession'',
       bind_io getSetupIframe (\<lambda>setupPage. block [
         clickButton setupPage ''Edit'',
         waitForNetworkIdle,
         whenDefined (sessionTimeout options)
           (\<lambda>t. selectOption setupPage ''select[id*=\"timeout\"]'' (numberToString t)),
         whenDefined (forceLogoutOnSessionTimeout options)
           (setCheckbox setupPage ''input[type=\"checkbox\"][id*=\"forceLogout\"]''),
         whenDefined (lockSessionsToIp options)
           (setCheckbox setupPage ''input[type=\"checkbox\"][id*=\"lockIp\"]''),
         whenDefined (requireHttpOnly options)
           (setCheckbox setupPage ''input[type=\"checkbox\"][id*=\"httpOnly\"]''),
         whenDefined (requireSecureConnections options)
           (setCheckbox setupPage ''input[type=\"checkbox\"][id*=\"secureConnections\"]''),
         clickButton setupPage ''Save'',
         discard (waitForToast setupPage None)])]"

definition configureOrgWideEmailAddress :: "email_options \<Rightarrow> unit io" where
  "configureOrgWideEmailAddress options =
     block [
       navigateToSetup ''OrgWideEmailAddresses'',
       bind_io getSetupIframe (\<lambda>setupPage. block [
         clickButton setupPage ''Add'',
         waitForNetworkIdle,
         setInput setupPage ''input[id*=\"displayName\"]'' (displayName options),
         setInput setupPage ''input[id*=\"emailAddress\"]'' (emailAddress options),
         when_io (allowAllProfiles options)
           (setCheckbox setupPage ''input[type=\"checkbox\"][id*=\"allowAll\"]'' True),
         clickButton setupPage ''Save'',
         discard (waitForToast setupPage None)])]"

definition configureOmniChannel :: "omni_options \<Rightarrow> unit io" where
  "configureOmniChannel options =
     block [
       navigateToSetup ''OmniChannelSettings'',
       bind_io getSetupIframe (\<lambda>setupPage. block [
         setCheckbox setupPage ''input[type=\"checkbox\"][id*=\"enableOmni\"]'' (omniEnabled options),
         when_io (omniEnabled options) (block [
           whenDefined (enableSkillBasedRouting options)
             (setCheckbox setupPage ''input[type=\"checkbox\"][id*=\"skillBased\"]''),
           whenDefined (enableExternalRouting options)
             (setCheckbox setupPage ''input[type=\"checkbox\"][id*=\"externalRouting\"]'')]),
         clickButton setupPage ''Save'',
         discard (waitForToast setupPage None)])]"

definition rowSelector :: "string \<Rightarrow> string" where
  "rowSelector name = ''tr:has-text(\"'' @ name @ ''\")''"

text \<open>
  An element looked up inside another one (\<^verbatim>\<open>row.querySelector(s)\<close>, \<^verbatim>\<open>row.$(s)\<close>) is
  addressed by the descendant selector.
\<close>

definition within :: "string \<Rightarrow> string \<Rightarrow> string" where
  "within outer inner = outer @ '' '' @ inner"

definition configureOrgWideDefaults :: "sharing_options \<Rightarrow> unit io" where
  "configureOrgWideDefaults options =
     block [
       navigateToSetup ''SecuritySharing'',
       bind_io getSetupIframe (\<lambda>setupPage. block [
         discard (waitForSelector setupPage (rowSelector (objectName options))),
         clickHandle setupPage (within (rowSelector (objectName options)) ''a:has-text(\"Edit\")''),
         waitForNetworkIdle,
         selectOption setupPage ''select[id*=\"internalAccess\"]'' (accessText (internalAccess options)),
         whenDefined (externalAccess options)
           (\<lambda>a. selectOption setupPage ''select[id*=\"externalAccess\"]'' (accessText a)),
         whenDefined (grantAccessUsingHierarchies options)
           (setCheckbox setupPage ''input[type=\"checkbox\"][id*=\"hierarchy\"]''),
         clickButton setupPage ''Save'',
         discard (waitForToast setupPage None)])]"

definition activateFlow :: "flow_options \<Rightarrow> unit io" where
  "activateFlow options =
     block [
       navigateToSetup ''Flows/home'',
       waitForNetworkIdle,
       discard (waitForSelector Top ''input[placeholder*=\"Search\"]''),
       emit (Typed Top ''input[placeholder*=\"Search\"]'' (flowApiName options)),
       emit (Pressed ''Enter''),
       waitForNetworkIdle,
       discard (waitForSelector Top (rowSelector (flowApiName options))),
       clickHandle Top (within (rowSelector (flowApiName options)) ''button[class*=\"rowActions\"]''),
       pageClick Top (''a:has-text(\"'' @ (if activate options then ''Activate'' else ''Deactivate'') @ ''\")''),
       bind_io (query Top ''button:has-text(\"Confirm\"), button:has-text(\"OK\")'') (\<lambda>confirmBtn.
         when_io (confirmBtn \<noteq> None)
           (clickHandle Top ''button:has-text(\"Confirm\"), button:has-text(\"OK\")'')),
       discard (waitForToast Top None)]"

section \<open>The \<^verbatim>\<open>ui setup apply\<close> command\<close>

record SetupConfig =
  sessionSettings :: "session_options option"
  sharingSettings :: "sharing_options list option"
  einsteinActivityCapture :: "eac_options option"
  omniChannel :: "omni_options option"
  flows :: "flow_options list option"
  orgWideEmails :: "email_options list option"

record ApplySetupResult =
  success :: bool
  message :: string
  applied :: "string list"
  failed :: "string list"

text \<open>One call of a method of the automation object, with its options.\<close>

datatype operation =
    SessionSettings session_options
  | SharingSettings sharing_options
  | EinsteinActivityCapture eac_options
  | OmniChannel omni_options
  | FlowActivation flow_options
  | OrgWideEmail email_options

text \<open>The repository's automation object: each call goes to its method.\<close>

fun SetupAutomations :: "operation \<Rightarrow> unit io" where
  "SetupAutomations (SessionSettings options) = configureSessionSettings options"
| "SetupAutomations (SharingSettings options) = configureOrgWideDefaults options"
| "SetupAutomations (EinsteinActivityCapture options) = configureEinsteinActivityCapture options"
| "SetupAutomations (OmniChannel options) = configureOmniChannel options"
| "SetupAutomations (FlowActivation options) = activateFlow options"
| "SetupAutomations (OrgWideEmail options) = configureOrgWideEmailAddress options"

text \<open>The string pushed to \<^verbatim>\<open>applied\<close> when the call returns.\<close>

fun appliedLabel :: "operation \<Rightarrow> string" where
  "appliedLabel (SessionSettings options) = ''Session Settings''"
| "appliedLabel (SharingSettings sharing) = ''Sharing: '' @ objectName sharing"
| "appliedLabel (EinsteinActivityCapture options) = ''Einstein Activity Capture''"
| "appliedLabel (OmniChannel options) = ''Omni-Channel''"
| "appliedLabel (FlowActivation flow) = ''Flow: '' @ flowApiName flow"
| "appliedLabel (OrgWideEmail email) = ''Org-Wide Email: '' @ displayName email"

text \<open>The prefix of the string pushed to \<^verbatim>\<open>failed\<close> when the call throws.\<close>

fun failedLabel :: "operation \<Rightarrow> string" where
  "failedLabel (SessionSettings options) = ''Session Settings''"
| "failedLabel (SharingSettings sharing) = ''Sharing '' @ objectName sharing"
| "failedLabel (EinsteinActivityCapture options) = ''Einstein Activity Capture''"
| "failedLabel (OmniChannel options) = ''Omni-Channel''"
| "failedLabel (FlowActivation flow) = ''Flow '' @ flowApiName flow"
| "failedLabel (OrgWideEmail email) = ''Org-Wide Email '' @ displayName email"

text \<open>
  The state of one run: the two local arrays, the world, and the calls the command made
  on the browser manager and on the automation object, in order. The call record is
  instrumentation: nothing reads it.
\<close>

datatype call = ConnectCall | AutomationCall operation | DisconnectCall

record run_state =
  st_applied :: "string list"
  st_failed :: "string list"
  st_calls :: "call list"
  st_world :: world

definition initial :: "world \<Rightarrow> run_state" where
  "initial w = \<lparr>st_applied = [], st_failed = [], st_calls = [], st_world = w\<rparr>"

text \<open>A call on the browser: it is recorded, then runs on the world.\<close>

definition invoke :: "call \<Rightarrow> 'a io \<Rightarrow> (run_state, 'a) comp" where
  "invoke c m st =
     (case m (st_world st) of
        (r, w') \<Rightarrow> (r, st\<lparr>st_calls := st_calls st @ [c], st_world := w'\<rparr>))"

definition pushApplied :: "string \<Rightarrow> (run_state, unit) comp" where
  "pushApplied x st = (Inr (), st\<lparr>st_applied := st_applied st @ [x]\<rparr>)"

definition pushFailed :: "string \<Rightarrow> (run_state, unit) comp" where
  "pushFailed x st = (Inr (), st\<lparr>st_failed := st_failed st @ [x]\<rparr>)"

text \<open>
  The try/catch around one call. The spinner and log output of the command changes
  neither its control flow nor its result and is left out.
\<close>

definition attempt :: "(operation \<Rightarrow> unit io) \<Rightarrow> bool \<Rightarrow> operation \<Rightarrow> (run_state, unit) comp" where
  "attempt automations continueOnError op =
     tryCatch
       (block [invoke (AutomationCall op) (automations op),
               pushApplied (appliedLabel op)])
       (\<lambda>error. block [
          pushFailed (failedLabel op @ '': '' @ messageOf error),
          when_io (\<not> continueOnError) (throw_io error)])"

definition applyAll :: "(operation \<Rightarrow> unit io) \<Rightarrow> bool \<Rightarrow> SetupConfig \<Rightarrow> (run_state, unit) comp" where
  "applyAll automations continueOnError config =
     block [
       whenDefined (sessionSettings config) (\<lambda>options.
         attempt automations continueOnError (SessionSettings options)),
       whenDefined (sharingSettings config) (\<lambda>entries.
         forEach entries (\<lambda>sharing. attempt automations continueOnError (SharingSettings sharing))),
       whenDefined (einsteinActivityCapture config) (\<lambda>options.
         attempt automations continueOnError (EinsteinActivityCapture options)),
       whenDefined (omniChannel config) (\<lambda>options.
         attempt automations continueOnError (OmniChannel options)),
       whenDefined (flows config) (\<lambda>entries.
         forEach entries (\<lambda>flow. attempt automations continueOnError (FlowActivation flow))),
       whenDefined (orgWideEmails config) (\<lambda>entries.
         forEach entries (\<lambda>email. attempt automations continueOnError (OrgWideEmail email)))]"

text \<open>The object the command returns, from the two arrays.\<close>

definition resultOf :: "string list \<Rightarrow> string list \<Rightarrow> ApplySetupResult" where
  "resultOf appliedItems failedItems =
     \<lparr>success = (length failedItems = 0),
      message = ''Applied '' @ digitsOf (length appliedItems) @ '' settings, ''
                  @ digitsOf (length failedItems) @ '' failed'',
      applied = appliedItems,
      failed = failedItems\<rparr>"

definition summary :: "(run_state, ApplySetupResult) comp" where
  "summary st = (Inr (resultOf (st_applied st) (st_failed st)), st)"

text \<open>
  The try and catch blocks of \<^verbatim>\<open>run\<close>. \<^verbatim>\<open>this.error(msg)\<close> of the command base class never
  returns: it raises a command error built from the message it is given.
\<close>

definition SetupApply_try ::
  "(operation \<Rightarrow> unit io) \<Rightarrow> bool \<Rightarrow> connection \<Rightarrow> SetupConfig \<Rightarrow> (run_state, ApplySetupResult) comp" where
  "SetupApply_try automations continueOnError org config =
     tryCatch
       (bind_io (invoke ConnectCall (connect org)) (\<lambda>session.
        bind_io (applyAll automations continueOnError config) (\<lambda>_.
        summary)))
       (\<lambda>error. throw_io (CLIError (''Configuration failed: '' @ messageOf error)))"

text \<open>
  \<^verbatim>\<open>run\<close> from the point where the configuration file has been read and parsed: the
  try/catch above, and \<^verbatim>\<open>browserManager.disconnect()\<close> in the finally block. The
  automation object is a parameter, so that what is proved of \<open>SetupApply_run\<close> holds
  whatever its six methods do; the command itself runs on \<open>SetupAutomations\<close>.
\<close>

definition SetupApply_run ::
  "(operation \<Rightarrow> unit io) \<Rightarrow> bool \<Rightarrow> connection \<Rightarrow> SetupConfig \<Rightarrow> world
     \<Rightarrow> (error + ApplySetupResult) \<times> run_state" where
  "SetupApply_run automations continueOnError org config w =
     tryFinally (SetupApply_try automations continueOnError org config)
                (invoke DisconnectCall disconnect)
                (initial w)"

section \<open>Notions used to state the properties\<close>

text \<open>
  The operations of a batch in the order the specification fixes: session settings,
  sharing entries, Einstein Activity Capture, Omni-Channel, flows, org-wide emails, the
  entries of a list in the order of the document.
\<close>

definition operations :: "SetupConfig \<Rightarrow> operation list" where
  "operations config =
     (case sessionSettings config of None \<Rightarrow> [] | Some options \<Rightarrow> [SessionSettings options])
     @ (case sharingSettings config of None \<Rightarrow> [] | Some entries \<Rightarrow> map SharingSettings entries)
     @ (case einsteinActivityCapture config of None \<Rightarrow> [] | Some options \<Rightarrow> [EinsteinActivityCapture options])
     @ (case omniChannel config of None \<Rightarrow> [] | Some options \<Rightarrow> [OmniChannel options])
     @ (case flows config of None \<Rightarrow> [] | Some entries \<Rightarrow> map FlowActivation entries)
     @ (case orgWideEmails config of None \<Rightarrow> [] | Some entries \<Rightarrow> map OrgWideEmail entries)"

fun category :: "operation \<Rightarrow> nat" where
  "category (SessionSettings options) = 0"
| "category (SharingSettings options) = 1"
| "category (EinsteinActivityCapture options) = 2"
| "category (OmniChannel options) = 3"
| "category (FlowActivation options) = 4"
| "category (OrgWideEmail options) = 5"

text \<open>The automation calls among the recorded calls: the operations attempted.\<close>

fun attempted :: "call list \<Rightarrow> operation list" where
  "attempted [] = []"
| "attempted (AutomationCall op # cs) = op # attempted cs"
| "attempted (c # cs) = attempted cs"

text \<open>
  What each operation of a list does when they run one after the other, each in the
  world the previous one left, and the world after the last.
\<close>

fun outcomes :: "(operation \<Rightarrow> unit io) \<Rightarrow> operation list \<Rightarrow> world \<Rightarrow> (error + unit) list" where
  "outcomes automations [] w = []"
| "outcomes automations (op # ops) w =
     fst (automations op w) # outcomes automations ops (snd (automations op w))"

fun worldAfter :: "(operation \<Rightarrow> unit io) \<Rightarrow> operation list \<Rightarrow> world \<Rightarrow> world" where
  "worldAfter automations [] w = w"
| "worldAfter automations (op # ops) w = worldAfter automations ops (snd (automations op w))"

text \<open>The index and the error of the first failure in a list of outcomes.\<close>

fun firstFailure :: "(error + unit) list \<Rightarrow> (nat \<times> error) option" where
  "firstFailure [] = None"
| "firstFailure (Inl e # rs) = Some (0, e)"
| "firstFailure (Inr u # rs) = map_option (\<lambda>(i, e). (Suc i, e)) (firstFailure rs)"

text \<open>The entries that operations with the given outcomes leave in the two arrays.\<close>

fun appliedOf :: "operation list \<Rightarrow> (error + unit) list \<Rightarrow> string list" where
  "appliedOf (op # ops) (Inr u # rs) = appliedLabel op # appliedOf ops rs"
| "appliedOf (op # ops) (Inl e # rs) = appliedOf ops rs"
| "appliedOf ops rs = []"

fun failedOf :: "operation list \<Rightarrow> (error + unit) list \<Rightarrow> string list" where
  "failedOf (op # ops) (Inr u # rs) = failedOf ops rs"
| "failedOf (op # ops) (Inl e # rs) = (failedLabel op @ '': '' @ messageOf e) # failedOf ops rs"
| "failedOf ops rs = []"

fun isClick :: "event \<Rightarrow> bool" where
  "isClick (Clicked c s) = True"
| "isClick ev = False"

definition clicks :: "world \<Rightarrow> nat" where
  "clicks w = length (filter isClick (log w))"

text \<open>
  A control is untouched between two worlds when, in the page and in the setup frame,
  its element is the same and no click on it was added to the log.
\<close>

definition untouched :: "string \<Rightarrow> world \<Rightarrow> world \<Rightarrow> bool" where
  "untouched sel w w' =
     (domOf Top (doc w') sel = domOf Top (doc w) sel
      \<and> domOf Frame (doc w') sel = domOf Frame (doc w) sel
      \<and> count_list (log w') (Clicked Top sel) = count_list (log w) (Clicked Top sel)
      \<and> count_list (log w') (Clicked Frame sel) = count_list (log w) (Clicked Frame sel))"

section \<open>A concrete org\<close>

text \<open>
  An org whose front door shows the Lightning header, whose session, activity capture
  and Omni-Channel pages and flow list work, and whose flow list has a row for flow \<open>A\<close>
  and none for flow \<open>B\<close>.
\<close>

definition node :: "string \<Rightarrow> element" where
  "node t = \<lparr>checked = None, textContent = t, clickEffect = NoEffect\<rparr>"

definition checkbox :: "bool \<Rightarrow> element" where
  "checkbox b = \<lparr>checked = Some b, textContent = [], clickEffect = Toggles\<rparr>"

definition disabledCheckbox :: "bool \<Rightarrow> element" where
  "disabledCheckbox b = \<lparr>checked = Some b, textContent = [], clickEffect = NoEffect\<rparr>"

text \<open>
  The origin of a URL that is already in normal form (lower-case scheme and host, no
  default port), as the URLs of the concrete org are: the scheme, \<^verbatim>\<open>://\<close> and the authority.
\<close>

definition originOf :: "string \<Rightarrow> error + string" where
  "originOf u =
     (let scheme = takeWhile (\<lambda>c. c \<noteq> CHR '':'') u;
          rest = drop (length scheme + 3) u
      in Inr (scheme @ ''://'' @ takeWhile (\<lambda>c. c \<notin> set ''/?#'') rest))"

definition pageWith :: "(string \<times> element) list \<Rightarrow> document" where
  "pageWith els = \<lparr>top = map_of els, setupFrame = None, networkIdle = True\<rparr>"

definition demoSite :: "string \<Rightarrow> error + document" where
  "demoSite u =
     (if u = ''https://acme.my.salesforce.com/secur/frontdoor.jsp?sid=TOKEN''
      then Inr (pageWith [(''.slds-global-header'', node [])])
      else if u = ''https://acme.my.salesforce.com/lightning/setup/SecuritySession/home''
      then Inr (pageWith [(buttonSelector ''Edit'', node ''Edit''),
                          (''select[id*=\"timeout\"]'', node []),
                          (buttonSelector ''Save'', node ''Save''),
                          (toastSelector, node ''Saved'')])
      else if u = ''https://acme.my.salesforce.com/lightning/setup/ActivitySyncEngineSettings/home''
      then Inr (pageWith [(''input[type=\"checkbox\"][id*=\"activityCapture\"]'', checkbox True),
                          (''input[type=\"checkbox\"][id*=\"emailCapture\"]'', checkbox False),
                          (''input[type=\"checkbox\"][id*=\"eventCapture\"]'', checkbox False),
                          (buttonSelector ''Save'', node ''Save''),
                          (toastSelector, node ''Saved'')])
      else if u = ''https://acme.my.salesforce.com/lightning/setup/OmniChannelSettings/home''
      then Inr (pageWith [(''input[type=\"checkbox\"][id*=\"enableOmni\"]'', checkbox True),
                          (''input[type=\"checkbox\"][id*=\"skillBased\"]'', checkbox False),
                          (''input[type=\"checkbox\"][id*=\"externalRouting\"]'', checkbox False),
                          (buttonSelector ''Save'', node ''Save''),
                          (toastSelector, node ''Saved'')])
      else if u = ''https://acme.my.salesforce.com/lightning/setup/Flows/home/home''
      then Inr (pageWith [(''input[placeholder*=\"Search\"]'', node []),
                          (rowSelector ''A'', node ''A''),
                          (''a:has-text(\"Activate\")'', node ''Activate''),
                          (''a:has-text(\"Deactivate\")'', node ''Deactivate''),
                          (toastSelector, node ''Flow updated'')])
      else Inl (TimeoutError (''Navigation timeout: '' @ u)))"

definition demoWorld :: world where
  "demoWorld = \<lparr>launchError = None, closeError = None, site = demoSite, urlOrigin = originOf,
                 browser = False,
                 url = [], doc = emptyDocument, log = []\<rparr>"

definition demoOrg :: connection where
  "demoOrg = \<lparr>instanceUrl = Some ''https://acme.my.salesforce.com'', accessToken = Some ''TOKEN''\<rparr>"

definition demoSession :: session_options where
  "demoSession = \<lparr>sessionTimeout = Some (Number ''60''), forceLogoutOnSessionTimeout = None,
                   lockSessionsToIp = None, requireHttpOnly = None, requireSecureConnections = None\<rparr>"

definition flowA :: flow_options where
  "flowA = \<lparr>flowApiName = ''A'', activate = True\<rparr>"

definition flowB :: flow_options where
  "flowB = \<lparr>flowApiName = ''B'', activate = False\<rparr>"

definition configWith :: "flow_options list \<Rightarrow> SetupConfig" where
  "configWith fs = \<lparr>sessionSettings = Some demoSession, sharingSettings = None,
                     einsteinActivityCapture = None, omniChannel = None,
                     flows = Some fs, orgWideEmails = None\<rparr>"

text \<open>A page with an unchecked checkbox, an unchecked disabled checkbox and a toast.\<close>

definition boxWorld :: world where
  "boxWorld = demoWorld\<lparr>browser := True,
                         doc := pageWith [(''input#box'', checkbox False),
                                          (''input#locked'', disabledCheckbox False),
                                          (toastSelector, node ''Saved'')]\<rparr>"

text \<open>The same org when closing the browser fails.\<close>

definition closeFails :: world where
  "closeFails = demoWorld\<lparr>closeError := Some (Error ''Protocol error: Target closed'')\<rparr>"

text \<open>An org that serves the login page at the front door, and a connection without a token.\<close>

definition loginSite :: "string \<Rightarrow> error + document" where
  "loginSite u = Inr (pageWith [(''#username'', node []), (''#password'', node [])])"

definition loggedOut :: world where
  "loggedOut = demoWorld\<lparr>site := loginSite\<rparr>"

definition noToken :: connection where
  "noToken = \<lparr>instanceUrl = Some ''https://acme.my.salesforce.com'', accessToken = None\<rparr>"

section \<open>The configuration file as written\<close>

text \<open>
  The sections of the JSON document in the order they are written. \<^verbatim>\<open>JSON.parse\<close> builds
  the object the command reads by name; of a name written twice it keeps the last value.
\<close>

datatype doc_section =
    SessionSettingsSection session_options
  | SharingSettingsSection "sharing_options list"
  | EinsteinActivityCaptureSection eac_options
  | OmniChannelSection omni_options
  | FlowsSection "flow_options list"
  | OrgWideEmailsSection "email_options list"

fun sectionName :: "doc_section \<Rightarrow> string" where
  "sectionName (SessionSettingsSection x) = ''sessionSettings''"
| "sectionName (SharingSettingsSection x) = ''sharingSettings''"
| "sectionName (EinsteinActivityCaptureSection x) = ''einsteinActivityCapture''"
| "sectionName (OmniChannelSection x) = ''omniChannel''"
| "sectionName (FlowsSection x) = ''flows''"
| "sectionName (OrgWideEmailsSection x) = ''orgWideEmails''"

definition emptyConfig :: SetupConfig where
  "emptyConfig = \<lparr>sessionSettings = None, sharingSettings = None, einsteinActivityCapture = None,
                   omniChannel = None, flows = None, orgWideEmails = None\<rparr>"

fun setSection :: "doc_section \<Rightarrow> SetupConfig \<Rightarrow> SetupConfig" where
  "setSection (SessionSettingsSection x) config = config\<lparr>sessionSettings := Some x\<rparr>"
| "setSection (SharingSettingsSection x) config = config\<lparr>sharingSettings := Some x\<rparr>"
| "setSection (EinsteinActivityCaptureSection x) config = config\<lparr>einsteinActivityCapture := Some x\<rparr>"
| "setSection (OmniChannelSection x) config = config\<lparr>omniChannel := Some x\<rparr>"
| "setSection (FlowsSection x) config = config\<lparr>flows := Some x\<rparr>"
| "setSection (OrgWideEmailsSection x) config = config\<lparr>orgWideEmails := Some x\<rparr>"

definition parseConfig :: "doc_section list \<Rightarrow> SetupConfig" where
  "parseConfig secs = fold setSection secs emptyConfig"

text \<open>
  Options that switch a feature off and yet name its sub-options, a sharing entry, and a
  document that lists its sections in another order than the command runs them.
\<close>

definition eacOff :: eac_options where
  "eacOff = \<lparr>eacEnabled = False, captureEmails = Some True, captureEvents = Some True\<rparr>"

definition omniOff :: omni_options where
  "omniOff = \<lparr>omniEnabled = False, enableSkillBasedRouting = Some True,
               enableExternalRouting = Some True\<rparr>"

definition accountSharing :: sharing_options where
  "accountSharing = \<lparr>objectName = ''Account'', internalAccess = Private, externalAccess = None,
                      grantAccessUsingHierarchies = None\<rparr>"

definition shuffled :: "doc_section list" where
  "shuffled = [FlowsSection [flowA, flowB], SharingSettingsSection [accountSharing],
               SessionSettingsSection demoSession]"

definition ordered :: "doc_section list" where
  "ordered = [SessionSettingsSection demoSession, SharingSettingsSection [accountSharing],
              FlowsSection [flowA, flowB]]"

section \<open>The page helpers\<close>

lemma str_includes_sublist: "str_includes s t \<longleftrightarrow> sublist t s"
  by (induction s) (auto simp: sublist_Cons_right)

lemma domOf_setDom: "domOf c (setDom c m d) = m"
  by (cases c) (simp_all add: domOf_def setDom_def)

lemma setCheckbox_present:
  "domOf c (doc w) sel = Some el \<Longrightarrow>
   setCheckbox c sel d w =
     (if checked el \<noteq> Some d
      then (Inr (), w\<lparr>doc := setDom c ((domOf c (doc w))
                                        (sel \<mapsto> el\<lparr>checked := afterClick (clickEffect el) (checked el)\<rparr>))
                                   (doc w),
                     log := log w @ [Clicked c sel]\<rparr>)
      else (Inr (), w))"
  by (auto simp: setCheckbox_def bind_io_def waitForSelector_def clickHandle_def return_io_def Let_def)

lemma setCheckbox_absent:
  "domOf c (doc w) sel = None \<Longrightarrow>
   setCheckbox c sel d w = (Inl (TimeoutError (''Waiting for selector failed: '' @ sel)), w)"
  by (simp add: setCheckbox_def bind_io_def waitForSelector_def)

text \<open>
  C7, as the code has it. \<open>setCheckbox\<close> reads the checked state and clicks only when it
  differs from the desired value: the call adds one click to the log when the control is
  present and does not read as the desired value, and nothing otherwise. On a control
  with a checked state that a click toggles (an enabled checkbox), a second call with the
  same desired value changes nothing at all, so two calls in succession perform at most
  one click.
\<close>

theorem setCheckbox_idempotent_when_click_toggles:
  "log (snd (setCheckbox c sel d w)) =
       log w @ (case domOf c (doc w) sel of
                  None \<Rightarrow> []
                | Some el \<Rightarrow> if checked el = Some d then [] else [Clicked c sel])
   \<and> ((\<forall>el. domOf c (doc w) sel = Some el \<longrightarrow> checked el \<noteq> None \<and> clickEffect el = Toggles) \<longrightarrow>
        snd (setCheckbox c sel d (snd (setCheckbox c sel d w))) = snd (setCheckbox c sel d w)
        \<and> clicks (snd (setCheckbox c sel d (snd (setCheckbox c sel d w)))) \<le> clicks w + 1)"
proof (cases "domOf c (doc w) sel")
  case None
  then show ?thesis by (simp add: setCheckbox_absent)
next
  case (Some el)
  show ?thesis
  proof (cases "checked el = Some d")
    case True
    with Some show ?thesis by (simp add: setCheckbox_present)
  next
    case False
    let ?el1 = "el\<lparr>checked := afterClick (clickEffect el) (checked el)\<rparr>"
    let ?w1 = "w\<lparr>doc := setDom c ((domOf c (doc w))(sel \<mapsto> ?el1)) (doc w),
                  log := log w @ [Clicked c sel]\<rparr>"
    have 1: "setCheckbox c sel d w = (Inr (), ?w1)"
      using Some False by (simp add: setCheckbox_present)
    have 2: "domOf c (doc ?w1) sel = Some ?el1"
      by (simp add: domOf_setDom)
    have 3: "setCheckbox c sel d ?w1 = (Inr (), ?w1)"
      if "checked el \<noteq> None" "clickEffect el = Toggles"
    proof -
      from that False have "checked ?el1 = Some d"
        by (cases "checked el") auto
      with setCheckbox_present [OF 2, of d] show ?thesis by simp
    qed
    show ?thesis using Some False 3 by (simp add: 1 clicks_def)
  qed
qed

theorem setCheckbox_idempotent_when_click_toggles_witness:
  "domOf Top (doc boxWorld) ''input#box'' = Some (checkbox False)
   \<and> checked (checkbox False) \<noteq> None \<and> clickEffect (checkbox False) = Toggles
   \<and> log (snd (setCheckbox Top ''input#box'' True boxWorld)) = [Clicked Top ''input#box'']
   \<and> log (snd (setCheckbox Top ''input#box'' True (snd (setCheckbox Top ''input#box'' True boxWorld))))
       = [Clicked Top ''input#box'']
   \<and> clicks (snd (setCheckbox Top ''input#box'' True (snd (setCheckbox Top ''input#box'' True boxWorld)))) \<le> 1"
proof -
  have d: "domOf Top (doc boxWorld) ''input#box'' = Some (checkbox False)"
    by (simp add: boxWorld_def pageWith_def domOf_def)
  have k: "checked (checkbox False) = Some False" "clickEffect (checkbox False) = Toggles"
    by (simp_all add: checkbox_def)
  have l: "log boxWorld = []" "clicks boxWorld = 0"
    by (simp_all add: boxWorld_def demoWorld_def clicks_def)
  from setCheckbox_idempotent_when_click_toggles [of Top "''input#box''" True boxWorld]
  show ?thesis
    by (auto simp: d k l)
qed

text \<open>
  The claim as stated, for any control, fails: a click leaves a disabled checkbox
  unchecked, so the second call with the same desired value reads the same state and
  clicks again.
\<close>

theorem setCheckbox_clicks_twice_when_click_has_no_effect:
  "domOf Top (doc boxWorld) ''input#locked'' = Some (disabledCheckbox False)
   \<and> clicks boxWorld = 0
   \<and> log (snd (setCheckbox Top ''input#locked'' True (snd (setCheckbox Top ''input#locked'' True boxWorld))))
       = [Clicked Top ''input#locked'', Clicked Top ''input#locked'']
   \<and> clicks (snd (setCheckbox Top ''input#locked'' True (snd (setCheckbox Top ''input#locked'' True boxWorld))))
       = 2"
  by code_simp

text \<open>
  C8. \<open>waitForToast\<close> waits for the notification element and fails with the timeout error
  when none appears. Without an expected substring it returns the text of the toast,
  whatever it is. With an expected substring that the text does not contain it fails
  with an error whose message carries the expected and the actual text; with one that
  the text contains it returns the text.
\<close>

theorem waitForToast_contract:
  "(domOf c (doc w) toastSelector = None \<longrightarrow>
      waitForToast c expected w = (Inl (TimeoutError (''Waiting for selector failed: '' @ toastSelector)), w))
   \<and> (\<forall>el. domOf c (doc w) toastSelector = Some el \<longrightarrow>
        waitForToast c None w = (Inr (textContent el), w))
   \<and> (\<forall>el e. domOf c (doc w) toastSelector = Some el \<and> \<not> sublist e (textContent el) \<longrightarrow>
        waitForToast c (Some e) w =
          (Inl (Error (''Expected toast \"'' @ e @ ''\" but got \"'' @ textContent el @ ''\"'')), w))
   \<and> (\<forall>el e. domOf c (doc w) toastSelector = Some el \<and> sublist e (textContent el) \<longrightarrow>
        waitForToast c (Some e) w = (Inr (textContent el), w))"
  by (auto simp: waitForToast_def bind_io_def waitForSelector_def return_io_def throw_io_def
        str_includes_sublist Let_def)

theorem waitForToast_contract_witness:
  "domOf Top (doc boxWorld) toastSelector = Some (node ''Saved'')
   \<and> \<not> sublist ''Deleted'' ''Saved''
   \<and> waitForToast Top None boxWorld = (Inr ''Saved'', boxWorld)
   \<and> waitForToast Top (Some ''Deleted'') boxWorld
       = (Inl (Error ''Expected toast \"Deleted\" but got \"Saved\"''), boxWorld)"
proof -
  have d: "domOf Top (doc boxWorld) toastSelector = Some (node ''Saved'')"
    by (simp add: boxWorld_def pageWith_def domOf_def toastSelector_def)
  have n: "\<not> sublist ''Deleted'' ''Saved''"
    unfolding str_includes_sublist [symmetric] by code_simp
  from waitForToast_contract [of Top boxWorld None] d n show ?thesis
    by (simp add: node_def)
qed

section \<open>The command: how a run unfolds\<close>

lemma bind_return [simp]: "bind_io (return_io x) f = f x"
  by (rule ext) (simp add: bind_io_def return_io_def)

lemma bind_return_right [simp]: "bind_io m return_io = m"
  by (rule ext) (simp add: bind_io_def return_io_def split: prod.splits sum.splits)

lemma bind_assoc: "bind_io (bind_io m f) g = bind_io m (\<lambda>x. bind_io (f x) g)"
  by (rule ext) (simp add: bind_io_def split: prod.splits sum.splits)

lemma block_append: "block (xs @ ys) = bind_io (block xs) (\<lambda>_. block ys)"
proof (induction xs)
  case Nil
  show ?case by simp
next
  case (Cons m ms)
  show ?case
    by (rule ext) (simp add: Cons bind_io_def split: prod.splits sum.splits)
qed

lemma block_single: "block [m] = m"
  by simp



lemma applyAll_operations:
  "applyAll automations c config = block (map (attempt automations c) (operations config))"
proof -
  have 1: "\<And>x f. whenDefined x (\<lambda>v. attempt automations c (f v))
             = block (map (attempt automations c) (case x of None \<Rightarrow> [] | Some v \<Rightarrow> [f v]))"
    by (simp add: whenDefined_def block_single split: option.splits)
  have 2: "\<And>x f. whenDefined x (\<lambda>vs. forEach vs (\<lambda>v. attempt automations c (f v)))
             = block (map (attempt automations c) (case x of None \<Rightarrow> [] | Some vs \<Rightarrow> map f vs))"
    by (simp add: whenDefined_def forEach_def comp_def split: option.splits)
  show ?thesis
    unfolding applyAll_def operations_def 1 2 map_append
    by (simp add: block_append bind_assoc)
qed

lemma attempt_eq:
  "attempt automations c op st =
     (case automations op (st_world st) of
        (Inr u, w') \<Rightarrow>
          (Inr (), st\<lparr>st_applied := st_applied st @ [appliedLabel op],
                      st_calls := st_calls st @ [AutomationCall op], st_world := w'\<rparr>)
      | (Inl e, w') \<Rightarrow>
          (if c then Inr () else Inl e,
           st\<lparr>st_failed := st_failed st @ [failedLabel op @ '': '' @ messageOf e],
              st_calls := st_calls st @ [AutomationCall op], st_world := w'\<rparr>))"
  by (simp add: attempt_def tryCatch_def bind_io_def invoke_def pushApplied_def pushFailed_def
        return_io_def throw_io_def when_io_def split: prod.splits sum.splits)



lemma attempt_ok:
  "automations op (st_world st) = (Inr u, w') \<Longrightarrow>
   attempt automations c op st =
     (Inr (), st\<lparr>st_applied := st_applied st @ [appliedLabel op],
                 st_calls := st_calls st @ [AutomationCall op], st_world := w'\<rparr>)"
  by (simp add: attempt_eq)

lemma attempt_fail:
  "automations op (st_world st) = (Inl e, w') \<Longrightarrow>
   attempt automations c op st =
     (if c then Inr () else Inl e,
      st\<lparr>st_failed := st_failed st @ [failedLabel op @ '': '' @ messageOf e],
         st_calls := st_calls st @ [AutomationCall op], st_world := w'\<rparr>)"
  by (simp add: attempt_eq)

lemma attempts_Cons:
  "block (attempt automations c op # ms) st =
     (case attempt automations c op st of
        (Inl e, st') \<Rightarrow> (Inl e, st')
      | (Inr u, st') \<Rightarrow> block ms st')"
  by (simp add: bind_io_def)

lemma attempts_continue:
  "block (map (attempt automations True) ops) st =
     (Inr (), st\<lparr>st_applied := st_applied st @ appliedOf ops (outcomes automations ops (st_world st)),
                 st_failed := st_failed st @ failedOf ops (outcomes automations ops (st_world st)),
                 st_calls := st_calls st @ map AutomationCall ops,
                 st_world := worldAfter automations ops (st_world st)\<rparr>)"
proof (induction ops arbitrary: st)
  case Nil
  show ?case by (simp add: return_io_def)
next
  case (Cons op ops)
  obtain r w' where aw: "automations op (st_world st) = (r, w')" by (cases "automations op (st_world st)")
  show ?case
  proof (cases r)
    case (Inl e)
    with aw show ?thesis
      by (simp add: attempts_Cons attempt_fail [of automations op st e w'] Cons.IH del: block.simps)
  next
    case (Inr u)
    with aw show ?thesis
      by (simp add: attempts_Cons attempt_ok [of automations op st u w'] Cons.IH del: block.simps)
  qed
qed

lemma length_outcomes [simp]: "length (outcomes automations ops w) = length ops"
  by (induction ops arbitrary: w) auto

lemma firstFailure_None_appliedOf:
  "length rs = length ops \<Longrightarrow> firstFailure rs = None \<Longrightarrow>
   appliedOf ops rs = map appliedLabel ops \<and> failedOf ops rs = []"
proof (induction ops rs rule: appliedOf.induct)
  case (1 op ops u rs)
  then show ?case by (cases "firstFailure rs") auto
qed auto

lemma attempts_abort_ok:
  "firstFailure (outcomes automations ops (st_world st)) = None \<Longrightarrow>
   block (map (attempt automations False) ops) st =
     (Inr (), st\<lparr>st_applied := st_applied st @ map appliedLabel ops,
                 st_calls := st_calls st @ map AutomationCall ops,
                 st_world := worldAfter automations ops (st_world st)\<rparr>)"
proof (induction ops arbitrary: st)
  case Nil
  show ?case by (simp add: return_io_def)
next
  case (Cons op ops)
  obtain r w' where aw: "automations op (st_world st) = (r, w')" by (cases "automations op (st_world st)")
  show ?case
  proof (cases r)
    case (Inl e)
    with aw Cons.prems show ?thesis by simp
  next
    case (Inr u)
    let ?st' = "st\<lparr>st_applied := st_applied st @ [appliedLabel op],
                   st_calls := st_calls st @ [AutomationCall op], st_world := w'\<rparr>"
    from aw Inr Cons.prems have "firstFailure (outcomes automations ops (st_world ?st')) = None"
      by (cases "firstFailure (outcomes automations ops w')") auto
    from Cons.IH [OF this] aw Inr show ?thesis
      by (simp add: attempts_Cons attempt_ok [of automations op st u w'] del: block.simps)
  qed
qed

lemma attempts_abort_fail:
  "firstFailure (outcomes automations ops (st_world st)) = Some (i, e) \<Longrightarrow>
   block (map (attempt automations False) ops) st =
     (Inl e, st\<lparr>st_applied := st_applied st @ map appliedLabel (take i ops),
                 st_failed := st_failed st @ [failedLabel (ops ! i) @ '': '' @ messageOf e],
                 st_calls := st_calls st @ map AutomationCall (take (Suc i) ops),
                 st_world := worldAfter automations (take (Suc i) ops) (st_world st)\<rparr>)"
proof (induction ops arbitrary: st i)
  case Nil
  then show ?case by simp
next
  case (Cons op ops)
  obtain r w' where aw: "automations op (st_world st) = (r, w')" by (cases "automations op (st_world st)")
  show ?case
  proof (cases r)
    case (Inl e')
    with aw Cons.prems have "i = 0" "e' = e" by auto
    with aw Inl show ?thesis
      by (simp add: attempts_Cons attempt_fail [of automations op st e w'] del: block.simps)
  next
    case (Inr u)
    let ?st' = "st\<lparr>st_applied := st_applied st @ [appliedLabel op],
                   st_calls := st_calls st @ [AutomationCall op], st_world := w'\<rparr>"
    from aw Inr Cons.prems obtain j
      where j: "firstFailure (outcomes automations ops (st_world ?st')) = Some (j, e)" "i = Suc j"
      by (cases "firstFailure (outcomes automations ops w')") auto
    from Cons.IH [OF j(1)] j(2) aw Inr show ?thesis
      by (simp add: attempts_Cons attempt_ok [of automations op st u w'] del: block.simps)
  qed
qed

lemma firstFailure_Some:
  "firstFailure rs = Some (i, e) \<Longrightarrow> i < length rs \<and> rs ! i = Inl e \<and> (\<forall>j < i. \<exists>u. rs ! j = Inr u)"
proof (induction rs arbitrary: i rule: firstFailure.induct)
  case 1
  then show ?case by simp
next
  case (2 e' rs)
  then show ?case by auto
next
  case (3 u rs)
  then obtain j where j: "firstFailure rs = Some (j, e)" "i = Suc j"
    by (cases "firstFailure rs") auto
  with 3 show ?case by (auto simp: less_Suc_eq_0_disj)
qed
lemma length_appliedOf_failedOf:
  "length rs = length ops \<Longrightarrow> length (appliedOf ops rs) + length (failedOf ops rs) = length ops"
  by (induction ops rs rule: appliedOf.induct) auto

lemma attempted_append [simp]: "attempted (xs @ ys) = attempted xs @ attempted ys"
  by (induction xs rule: attempted.induct) auto

lemma attempted_map [simp]: "attempted (map AutomationCall ops) = ops"
  by (induction ops) auto

lemma count_list_map_AutomationCall [simp]:
  "count_list (map AutomationCall ops) DisconnectCall = 0"
  by (induction ops) auto

lemma try_connect_fails:
  assumes "connect org w = (Inl e, w1)"
  shows "SetupApply_try automations c org config (initial w) =
           (Inl (CLIError (''Configuration failed: '' @ messageOf e)),
            \<lparr>st_applied = [], st_failed = [], st_calls = [ConnectCall], st_world = w1\<rparr>)"
  using assms
  by (simp add: SetupApply_try_def tryCatch_def bind_io_def invoke_def initial_def throw_io_def)

lemma try_connect_ok:
  assumes "connect org w = (Inr session, w1)"
  shows "SetupApply_try automations c org config (initial w) =
           (case block (map (attempt automations c) (operations config))
                   \<lparr>st_applied = [], st_failed = [], st_calls = [ConnectCall], st_world = w1\<rparr> of
              (Inl e, st) \<Rightarrow> (Inl (CLIError (''Configuration failed: '' @ messageOf e)), st)
            | (Inr u, st) \<Rightarrow> (Inr (resultOf (st_applied st) (st_failed st)), st))"
  using assms
  by (simp add: SetupApply_try_def tryCatch_def bind_io_def invoke_def initial_def throw_io_def
        applyAll_operations summary_def split: prod.splits sum.splits)

lemma run_finally:
  "SetupApply_run automations c org config w =
     (case SetupApply_try automations c org config (initial w) of
        (r, st) \<Rightarrow>
          (case fst (disconnect (st_world st)) of Inl e \<Rightarrow> Inl e | Inr u \<Rightarrow> r,
           st\<lparr>st_calls := st_calls st @ [DisconnectCall],
              st_world := snd (disconnect (st_world st))\<rparr>))"
  by (simp add: SetupApply_run_def tryFinally_def invoke_def split: prod.splits sum.splits)

lemma run_continue:
  assumes "connect org w = (Inr session, w1)"
  shows "SetupApply_run automations True org config w =
     (case fst (disconnect (worldAfter automations (operations config) w1)) of
        Inl e \<Rightarrow> Inl e
      | Inr u \<Rightarrow> Inr (resultOf (appliedOf (operations config) (outcomes automations (operations config) w1))
                                (failedOf (operations config) (outcomes automations (operations config) w1))),
      \<lparr>st_applied = appliedOf (operations config) (outcomes automations (operations config) w1),
       st_failed = failedOf (operations config) (outcomes automations (operations config) w1),
       st_calls = ConnectCall # map AutomationCall (operations config) @ [DisconnectCall],
       st_world = snd (disconnect (worldAfter automations (operations config) w1))\<rparr>)"
  by (simp add: run_finally try_connect_ok [OF assms] attempts_continue)

lemma run_abort_ok:
  assumes "connect org w = (Inr session, w1)"
      and "firstFailure (outcomes automations (operations config) w1) = None"
  shows "SetupApply_run automations False org config w =
     (case fst (disconnect (worldAfter automations (operations config) w1)) of
        Inl e \<Rightarrow> Inl e
      | Inr u \<Rightarrow> Inr (resultOf (map appliedLabel (operations config)) []),
      \<lparr>st_applied = map appliedLabel (operations config),
       st_failed = [],
       st_calls = ConnectCall # map AutomationCall (operations config) @ [DisconnectCall],
       st_world = snd (disconnect (worldAfter automations (operations config) w1))\<rparr>)"
  using assms(2)
  by (simp add: run_finally try_connect_ok [OF assms(1)] attempts_abort_ok)

lemma run_abort_fail:
  assumes "connect org w = (Inr session, w1)"
      and "firstFailure (outcomes automations (operations config) w1) = Some (i, e)"
  shows "SetupApply_run automations False org config w =
     (case fst (disconnect (worldAfter automations (take (Suc i) (operations config)) w1)) of
        Inl e' \<Rightarrow> Inl e'
      | Inr u \<Rightarrow> Inl (CLIError (''Configuration failed: '' @ messageOf e)),
      \<lparr>st_applied = map appliedLabel (take i (operations config)),
       st_failed = [failedLabel (operations config ! i) @ '': '' @ messageOf e],
       st_calls = ConnectCall # map AutomationCall (take (Suc i) (operations config)) @ [DisconnectCall],
       st_world = snd (disconnect (worldAfter automations (take (Suc i) (operations config)) w1))\<rparr>)"
  using assms(2)
  by (simp add: run_finally try_connect_ok [OF assms(1)] attempts_abort_fail split: sum.splits)

lemma run_connect_fails:
  assumes "connect org w = (Inl e, w1)"
  shows "SetupApply_run automations c org config w =
     (case fst (disconnect w1) of
        Inl e' \<Rightarrow> Inl e'
      | Inr u \<Rightarrow> Inl (CLIError (''Configuration failed: '' @ messageOf e)),
      \<lparr>st_applied = [], st_failed = [], st_calls = [ConnectCall, DisconnectCall],
       st_world = snd (disconnect w1)\<rparr>)"
  by (simp add: run_finally try_connect_fails [OF assms] split: sum.splits)

section \<open>The failure policy\<close>

text \<open>
  C1. With \<open>continueOnError = true\<close> and a session established, every operation of the
  batch is attempted exactly once, in order, however many of them fail: the automation
  calls made are the operations of the batch. Each attempt leaves one entry in
  \<open>applied\<close> or in \<open>failed\<close>, so the two lists together are as long as the batch. No error
  of an operation reaches the caller: the run returns the result object built from the
  two lists, and the only error it can raise instead is one thrown by \<open>disconnect\<close>.
\<close>

theorem continue_mode_attempts_every_operation:
  assumes "connect org w = (Inr session, w1)"
  shows "(case SetupApply_run automations True org config w of (r, st) \<Rightarrow>
            attempted (st_calls st) = operations config
          \<and> st_calls st = ConnectCall # map AutomationCall (operations config) @ [DisconnectCall]
          \<and> st_applied st = appliedOf (operations config) (outcomes automations (operations config) w1)
          \<and> st_failed st = failedOf (operations config) (outcomes automations (operations config) w1)
          \<and> length (st_applied st) + length (st_failed st) = length (operations config)
          \<and> r = (case fst (disconnect (worldAfter automations (operations config) w1)) of
                   Inl e \<Rightarrow> Inl e
                 | Inr u \<Rightarrow> Inr (resultOf (st_applied st) (st_failed st))))"
  by (simp add: run_continue [OF assms] length_appliedOf_failedOf split: sum.splits)

theorem continue_mode_attempts_every_operation_witness:
  "fst (connect demoOrg demoWorld) = Inr \<lparr>sessionInstanceUrl = ''https://acme.my.salesforce.com'',
                                         sessionAccessToken = ''TOKEN''\<rparr>
   \<and> (case SetupApply_run SetupAutomations True demoOrg (configWith [flowA, flowB]) demoWorld of
        (r, st) \<Rightarrow>
            attempted (st_calls st) = [SessionSettings demoSession, FlowActivation flowA, FlowActivation flowB]
          \<and> st_applied st = [''Session Settings'', ''Flow: A'']
          \<and> st_failed st = [''Flow B: Waiting for selector failed: tr:has-text(\"B\")'']
          \<and> r = Inr \<lparr>success = False, message = ''Applied 2 settings, 1 failed'',
                      applied = [''Session Settings'', ''Flow: A''],
                      failed = [''Flow B: Waiting for selector failed: tr:has-text(\"B\")'']\<rparr>)"
proof -
  let ?w1 = "snd (connect demoOrg demoWorld)"
  let ?ops = "operations (configWith [flowA, flowB])"
  have c: "fst (connect demoOrg demoWorld) = Inr \<lparr>sessionInstanceUrl = ''https://acme.my.salesforce.com'',
                                                  sessionAccessToken = ''TOKEN''\<rparr>"
    by code_simp
  then have h: "connect demoOrg demoWorld = (Inr \<lparr>sessionInstanceUrl = ''https://acme.my.salesforce.com'',
                                                  sessionAccessToken = ''TOKEN''\<rparr>, ?w1)"
    by (simp add: prod_eq_iff)
  have ops: "?ops = [SessionSettings demoSession, FlowActivation flowA, FlowActivation flowB]"
    by code_simp
  have a: "appliedOf ?ops (outcomes SetupAutomations ?ops ?w1) = [''Session Settings'', ''Flow: A'']"
    by code_simp
  have f: "failedOf ?ops (outcomes SetupAutomations ?ops ?w1)
             = [''Flow B: Waiting for selector failed: tr:has-text(\"B\")'']"
    by code_simp
  have d: "fst (disconnect (worldAfter SetupAutomations ?ops ?w1)) = Inr ()"
    by code_simp
  have r: "resultOf [''Session Settings'', ''Flow: A'']
                    [''Flow B: Waiting for selector failed: tr:has-text(\"B\")'']
           = \<lparr>success = False, message = ''Applied 2 settings, 1 failed'',
                      applied = [''Session Settings'', ''Flow: A''],
                      failed = [''Flow B: Waiting for selector failed: tr:has-text(\"B\")'']\<rparr>"
    by code_simp
  note t = continue_mode_attempts_every_operation
             [OF h, where automations = SetupAutomations and config = "configWith [flowA, flowB]"]
  from t [unfolded a f d] c ops r show ?thesis
    by (auto split: prod.splits)
qed

text \<open>
  C2, as the code has it. With \<open>continueOnError = false\<close> and a session established, the
  first operation that fails ends the batch: the operations attempted are those up to and
  including it (index of the first failure plus one), the operations before it stay
  recorded in \<open>applied\<close>, and \<open>failed\<close> holds the one entry of the failure. What reaches the
  caller is not the error the operation threw: the outer catch passes its message to
  \<open>this.error\<close>, which raises a command error reading \<open>Configuration failed:\<close> and that
  message, unless \<open>disconnect\<close> throws in the finally block, whose error is then raised.
\<close>

theorem abort_mode_stops_at_first_failure:
  assumes "connect org w = (Inr session, w1)"
      and "firstFailure (outcomes automations (operations config) w1) = Some (i, e)"
  shows "(case SetupApply_run automations False org config w of (r, st) \<Rightarrow>
            attempted (st_calls st) = take (Suc i) (operations config)
          \<and> length (attempted (st_calls st)) = Suc i
          \<and> st_calls st = ConnectCall # map AutomationCall (take (Suc i) (operations config)) @ [DisconnectCall]
          \<and> st_applied st = map appliedLabel (take i (operations config))
          \<and> st_failed st = [failedLabel (operations config ! i) @ '': '' @ messageOf e]
          \<and> r = (case fst (disconnect (worldAfter automations (take (Suc i) (operations config)) w1)) of
                   Inl e' \<Rightarrow> Inl e'
                 | Inr u \<Rightarrow> Inl (CLIError (''Configuration failed: '' @ messageOf e))))"
proof -
  from firstFailure_Some [OF assms(2)] have "i < length (operations config)" by simp
  then show ?thesis
    by (simp add: run_abort_fail [OF assms] min_absorb2 Suc_leI split: sum.splits)
qed

theorem abort_mode_stops_at_first_failure_witness:
  "fst (connect demoOrg demoWorld) = Inr \<lparr>sessionInstanceUrl = ''https://acme.my.salesforce.com'',
                                         sessionAccessToken = ''TOKEN''\<rparr>
   \<and> firstFailure (outcomes SetupAutomations (operations (configWith [flowB, flowA]))
                     (snd (connect demoOrg demoWorld)))
       = Some (1, TimeoutError ''Waiting for selector failed: tr:has-text(\"B\")'')
   \<and> (case SetupApply_run SetupAutomations False demoOrg (configWith [flowB, flowA]) demoWorld of
        (r, st) \<Rightarrow>
            attempted (st_calls st) = [SessionSettings demoSession, FlowActivation flowB]
          \<and> st_applied st = [''Session Settings'']
          \<and> st_failed st = [''Flow B: Waiting for selector failed: tr:has-text(\"B\")'']
          \<and> r = Inl (CLIError ''Configuration failed: Waiting for selector failed: tr:has-text(\"B\")''))"
proof -
  let ?w1 = "snd (connect demoOrg demoWorld)"
  let ?ops = "operations (configWith [flowB, flowA])"
  have c: "fst (connect demoOrg demoWorld) = Inr \<lparr>sessionInstanceUrl = ''https://acme.my.salesforce.com'',
                                                  sessionAccessToken = ''TOKEN''\<rparr>"
    by code_simp
  then have h: "connect demoOrg demoWorld = (Inr \<lparr>sessionInstanceUrl = ''https://acme.my.salesforce.com'',
                                                  sessionAccessToken = ''TOKEN''\<rparr>, ?w1)"
    by (simp add: prod_eq_iff)
  have ff: "firstFailure (outcomes SetupAutomations ?ops ?w1)
              = Some (1, TimeoutError ''Waiting for selector failed: tr:has-text(\"B\")'')"
    by code_simp
  have t: "take (Suc 1) ?ops = [SessionSettings demoSession, FlowActivation flowB]"
    by code_simp
  have a: "map appliedLabel (take 1 ?ops) = [''Session Settings'']"
    by code_simp
  have f: "failedLabel (?ops ! 1) = ''Flow B''"
    by code_simp
  have d: "fst (disconnect (worldAfter SetupAutomations
                              [SessionSettings demoSession, FlowActivation flowB] ?w1)) = Inr ()"
    by code_simp
  note th = abort_mode_stops_at_first_failure [OF h ff]
  from th [unfolded t a f d] c ff show ?thesis
    by (auto split: prod.splits)
qed

text \<open>
  The claim as stated fails: on the concrete org, with flows \<open>B\<close> then \<open>A\<close>, the second
  operation throws a timeout error, and the caller receives a command error with another
  message, not that error.
\<close>

theorem abort_mode_error_is_wrapped:
  "outcomes SetupAutomations (operations (configWith [flowB, flowA])) (snd (connect demoOrg demoWorld)) ! 1
     = Inl (TimeoutError ''Waiting for selector failed: tr:has-text(\"B\")'')
   \<and> fst (SetupApply_run SetupAutomations False demoOrg (configWith [flowB, flowA]) demoWorld)
       = Inl (CLIError ''Configuration failed: Waiting for selector failed: tr:has-text(\"B\")'')
   \<and> fst (SetupApply_run SetupAutomations False demoOrg (configWith [flowB, flowA]) demoWorld)
       \<noteq> Inl (TimeoutError ''Waiting for selector failed: tr:has-text(\"B\")'')"
  by code_simp

lemma attempts_calls:
  "\<exists>n. st_calls (snd (block (map (attempt automations c) ops) st))
         = st_calls st @ map AutomationCall (take n ops)"
proof (cases c)
  case True
  then show ?thesis
    by (simp add: attempts_continue) (rule exI [of _ "length ops"], simp)
next
  case False
  show ?thesis
  proof (cases "firstFailure (outcomes automations ops (st_world st))")
    case None
    with False show ?thesis
      by (simp add: attempts_abort_ok) (rule exI [of _ "length ops"], simp)
  next
    case (Some p)
    obtain i e where "p = (i, e)" by (cases p)
    with Some False show ?thesis
      by (simp add: attempts_abort_fail) (rule exI [of _ "Suc i"], simp)
  qed
qed

lemma try_calls:
  "\<exists>n. st_calls (snd (SetupApply_try automations c org config (initial w)))
         = ConnectCall # map AutomationCall (take n (operations config))"
proof (cases "connect org w")
  case (Pair r w1)
  show ?thesis
  proof (cases r)
    case (Inl e)
    with Pair show ?thesis
      by (simp add: try_connect_fails)
  next
    case (Inr session)
    let ?st = "\<lparr>st_applied = [], st_failed = [], st_calls = [ConnectCall], st_world = w1\<rparr>"
    from attempts_calls [of automations c "operations config" ?st]
    obtain n where "st_calls (snd (block (map (attempt automations c) (operations config)) ?st))
                      = ConnectCall # map AutomationCall (take n (operations config))"
      by auto
    with Pair Inr show ?thesis
      by (auto simp: try_connect_ok split: prod.splits sum.splits)
  qed
qed

text \<open>
  C4, as the code has it. A run that returns its result object attempted every operation
  of the batch; \<open>success\<close> holds exactly when \<open>failed\<close> is empty; each operation left one
  entry, in \<open>applied\<close> its label when it completed, in \<open>failed\<close> its failure label, a colon
  and the message of its error when it threw. The failure label is the label for session
  settings, Einstein Activity Capture and Omni-Channel; for a sharing entry, a flow and
  an org-wide email it is the label without its colon (\<open>Flow B\<close> against \<open>Flow: B\<close>).
\<close>

theorem completed_run_result:
  assumes "SetupApply_run automations c org config w = (Inr res, st)"
  shows "success res = (failed res = [])
       \<and> attempted (st_calls st) = operations config
       \<and> applied res = appliedOf (operations config)
                          (outcomes automations (operations config) (snd (connect org w)))
       \<and> failed res = failedOf (operations config)
                          (outcomes automations (operations config) (snd (connect org w)))
       \<and> length (applied res) + length (failed res) = length (operations config)"
proof (cases "connect org w")
  case (Pair r0 w1)
  show ?thesis
  proof (cases r0)
    case (Inl e)
    with Pair assms show ?thesis
      by (simp add: run_connect_fails split: sum.splits)
  next
    case (Inr session)
    with Pair have h: "connect org w = (Inr session, w1)" by simp
    show ?thesis
    proof (cases c)
      case True
      with assms h show ?thesis
        by (auto simp: run_continue resultOf_def length_appliedOf_failedOf split: sum.splits)
    next
      case False
      show ?thesis
      proof (cases "firstFailure (outcomes automations (operations config) w1)")
        case None
        from firstFailure_None_appliedOf [OF _ None, of "operations config"]
        have "appliedOf (operations config) (outcomes automations (operations config) w1)
                = map appliedLabel (operations config)"
             "failedOf (operations config) (outcomes automations (operations config) w1) = []"
          by simp_all
        with assms h False None show ?thesis
          by (auto simp: run_abort_ok resultOf_def split: sum.splits)
      next
        case (Some p)
        obtain i e where "p = (i, e)" by (cases p)
        with assms h False Some show ?thesis
          by (simp add: run_abort_fail split: sum.splits)
      qed
    qed
  qed
qed

theorem completed_run_result_witness:
  "fst (SetupApply_run SetupAutomations True demoOrg (configWith [flowA, flowB]) demoWorld)
     = Inr \<lparr>success = False, message = ''Applied 2 settings, 1 failed'',
            applied = [''Session Settings'', ''Flow: A''],
            failed = [''Flow B: Waiting for selector failed: tr:has-text(\"B\")'']\<rparr>
   \<and> attempted (st_calls (snd (SetupApply_run SetupAutomations True demoOrg (configWith [flowA, flowB]) demoWorld)))
     = operations (configWith [flowA, flowB])
   \<and> appliedOf (operations (configWith [flowA, flowB]))
        (outcomes SetupAutomations (operations (configWith [flowA, flowB])) (snd (connect demoOrg demoWorld)))
     = [''Session Settings'', ''Flow: A'']
   \<and> failedOf (operations (configWith [flowA, flowB]))
        (outcomes SetupAutomations (operations (configWith [flowA, flowB])) (snd (connect demoOrg demoWorld)))
     = [''Flow B: Waiting for selector failed: tr:has-text(\"B\")'']"
proof -
  let ?run = "SetupApply_run SetupAutomations True demoOrg (configWith [flowA, flowB]) demoWorld"
  let ?res = "\<lparr>success = False, message = ''Applied 2 settings, 1 failed'',
            applied = [''Session Settings'', ''Flow: A''],
            failed = [''Flow B: Waiting for selector failed: tr:has-text(\"B\")'']\<rparr>"
  have r: "fst ?run = Inr ?res"
    by code_simp
  then have h: "?run = (Inr ?res, snd ?run)"
    by (simp add: prod_eq_iff)
  from completed_run_result [OF h] r show ?thesis
    by simp
qed

text \<open>
  The claim as stated fails for the list categories: on the concrete org flow \<open>B\<close> throws,
  and its entry in \<open>failed\<close> is not its label \<open>Flow: B\<close> followed by a colon and the message.
\<close>

theorem failed_entry_has_another_label:
  "outcomes SetupAutomations (operations (configWith [flowA, flowB])) (snd (connect demoOrg demoWorld)) ! 2
     = Inl (TimeoutError ''Waiting for selector failed: tr:has-text(\"B\")'')
   \<and> appliedLabel (operations (configWith [flowA, flowB]) ! 2) = ''Flow: B''
   \<and> st_failed (snd (SetupApply_run SetupAutomations True demoOrg (configWith [flowA, flowB]) demoWorld))
       = [''Flow B: Waiting for selector failed: tr:has-text(\"B\")'']
   \<and> st_failed (snd (SetupApply_run SetupAutomations True demoOrg (configWith [flowA, flowB]) demoWorld))
       \<noteq> [appliedLabel (operations (configWith [flowA, flowB]) ! 2) @ '': ''
            @ ''Waiting for selector failed: tr:has-text(\"B\")'']"
  by code_simp

text \<open>
  C5, as the code has it. Nothing catches an error of \<open>disconnect\<close>: when the browser is
  live and closing it fails, the error is raised from the finally block to the caller of
  \<open>run\<close>, in place of the result or of the error that the try and catch blocks had
  determined. When the browser closes, or none is open, that outcome reaches the caller
  unchanged.
\<close>

theorem release_error_replaces_outcome:
  assumes "SetupApply_try automations c org config (initial w) = (r0, st0)"
  shows "fst (SetupApply_run automations c org config w) =
           (if browser (st_world st0)
            then (case closeError (st_world st0) of Some e \<Rightarrow> Inl e | None \<Rightarrow> r0)
            else r0)"
  by (simp add: run_finally assms disconnect_def split: option.splits)

theorem release_error_replaces_outcome_witness:
  "fst (SetupApply_try SetupAutomations True demoOrg (configWith [flowA]) (initial closeFails))
     = Inr \<lparr>success = True, message = ''Applied 2 settings, 0 failed'',
            applied = [''Session Settings'', ''Flow: A''], failed = []\<rparr>
   \<and> browser (st_world (snd (SetupApply_try SetupAutomations True demoOrg (configWith [flowA]) (initial closeFails))))
   \<and> closeError (st_world (snd (SetupApply_try SetupAutomations True demoOrg (configWith [flowA]) (initial closeFails))))
       = Some (Error ''Protocol error: Target closed'')
   \<and> fst (SetupApply_run SetupAutomations True demoOrg (configWith [flowA]) closeFails)
       = Inl (Error ''Protocol error: Target closed'')"
proof -
  let ?inner = "SetupApply_try SetupAutomations True demoOrg (configWith [flowA]) (initial closeFails)"
  have r: "fst ?inner = Inr \<lparr>success = True, message = ''Applied 2 settings, 0 failed'',
            applied = [''Session Settings'', ''Flow: A''], failed = []\<rparr>"
    by code_simp
  have b: "browser (st_world (snd ?inner))"
    by code_simp
  have ce: "closeError (st_world (snd ?inner)) = Some (Error ''Protocol error: Target closed'')"
    by code_simp
  have h: "?inner = (fst ?inner, snd ?inner)"
    by simp
  from release_error_replaces_outcome [OF h] r b ce show ?thesis
    by simp
qed

text \<open>
  The claim as stated fails: on the org where closing the browser fails, every operation
  of the batch succeeds and the try block has its result object ready, yet the caller of
  \<open>run\<close> receives the error of the close.
\<close>

theorem release_error_reaches_caller:
  "fst (SetupApply_try SetupAutomations True demoOrg (configWith [flowA]) (initial closeFails))
     = Inr \<lparr>success = True, message = ''Applied 2 settings, 0 failed'',
            applied = [''Session Settings'', ''Flow: A''], failed = []\<rparr>
   \<and> fst (SetupApply_run SetupAutomations True demoOrg (configWith [flowA]) closeFails)
       = Inl (Error ''Protocol error: Target closed'')"
  by code_simp

text \<open>
  C6. Whatever the automations do and however the run ends (a result object, the command
  error of an aborted batch or of a failed connection, an error of the close itself),
  \<open>disconnect\<close> is called once, as the last call of the run. On a manager whose browser
  field is not set \<open>disconnect\<close> returns without touching the world, and after a
  \<open>disconnect\<close> that returned, another one does the same.
\<close>

theorem disconnect_exactly_once:
  "count_list (st_calls (snd (SetupApply_run automations c org config w))) DisconnectCall = 1
   \<and> last (st_calls (snd (SetupApply_run automations c org config w))) = DisconnectCall
   \<and> (\<not> browser w \<longrightarrow> disconnect w = (Inr (), w))
   \<and> (\<forall>w'. disconnect w = (Inr (), w') \<longrightarrow> disconnect w' = (Inr (), w'))"
proof -
  obtain n where "st_calls (snd (SetupApply_try automations c org config (initial w)))
                    = ConnectCall # map AutomationCall (take n (operations config))"
    using try_calls by blast
  then have "count_list (st_calls (snd (SetupApply_run automations c org config w))) DisconnectCall = 1"
            "last (st_calls (snd (SetupApply_run automations c org config w))) = DisconnectCall"
    by (auto simp: run_finally split: prod.splits)
  moreover have "\<not> browser w \<longrightarrow> disconnect w = (Inr (), w)"
    by (simp add: disconnect_def)
  moreover have "\<forall>w'. disconnect w = (Inr (), w') \<longrightarrow> disconnect w' = (Inr (), w')"
    by (auto simp: disconnect_def split: if_splits option.splits)
  ultimately show ?thesis by blast
qed

theorem disconnect_exactly_once_witness:
  "count_list (st_calls (snd (SetupApply_run SetupAutomations False demoOrg (configWith [flowB, flowA]) demoWorld)))
     DisconnectCall = 1
   \<and> \<not> browser demoWorld
   \<and> disconnect demoWorld = (Inr (), demoWorld)
   \<and> fst (disconnect (snd (connect demoOrg demoWorld))) = Inr ()
   \<and> disconnect (snd (disconnect (snd (connect demoOrg demoWorld))))
       = (Inr (), snd (disconnect (snd (connect demoOrg demoWorld))))"
proof -
  have b: "\<not> browser demoWorld"
    by (simp add: demoWorld_def)
  have d: "fst (disconnect (snd (connect demoOrg demoWorld))) = Inr ()"
    by code_simp
  then have d': "disconnect (snd (connect demoOrg demoWorld))
                   = (Inr (), snd (disconnect (snd (connect demoOrg demoWorld))))"
    by (simp add: prod_eq_iff)
  from disconnect_exactly_once [of SetupAutomations False demoOrg "configWith [flowB, flowA]" demoWorld]
       disconnect_exactly_once [of SetupAutomations False demoOrg "configWith [flowB, flowA]"
                                   "snd (connect demoOrg demoWorld)"]
       b d d'
  show ?thesis by blast
qed

section \<open>Authentication\<close>

text \<open>
  C9. \<open>connect\<close> throws its authentication error before it launches anything when the
  instance URL or the access token is absent or empty, and, once the browser is launched
  and the front-door URL loaded, when the page shows neither the Lightning header nor the
  Classic logo. Whenever \<open>connect\<close> throws, the run raises an error to its caller, no
  automation is called, and \<open>applied\<close> and \<open>failed\<close> are empty. (The code has no error
  classes: the authentication failure is the plain error with these messages.)
\<close>

theorem connect_failure_is_fatal:
  "(falsy (instanceUrl org) \<or> falsy (accessToken org) \<longrightarrow>
      connect org w = (Inl (Error ''Unable to get Salesforce session. Please authenticate first.''), w))
   \<and> (\<forall>d. \<not> falsy (instanceUrl org) \<and> \<not> falsy (accessToken org) \<and> launchError w = None
          \<and> site w (frontdoorUrl (the (instanceUrl org)) (the (accessToken org))) = Inr d
          \<and> top d ''.slds-global-header'' = None \<and> top d ''#phHeaderLogoImage'' = None \<longrightarrow>
        fst (connect org w) = Inl (Error ''Failed to authenticate to Salesforce'')
        \<and> log (snd (connect org w))
            = log w @ [Launched, Navigated (frontdoorUrl (the (instanceUrl org)) (the (accessToken org)))])
   \<and> (\<forall>e. fst (connect org w) = Inl e \<longrightarrow>
        (case SetupApply_run automations c org config w of (r, st) \<Rightarrow>
           (\<exists>e'. r = Inl e') \<and> attempted (st_calls st) = []
           \<and> st_calls st = [ConnectCall, DisconnectCall]
           \<and> st_applied st = [] \<and> st_failed st = []))"
proof -
  have 1: "falsy (instanceUrl org) \<or> falsy (accessToken org) \<longrightarrow>
      connect org w = (Inl (Error ''Unable to get Salesforce session. Please authenticate first.''), w)"
    by (auto simp: connect_def throw_io_def)
  have 2: "\<forall>d. \<not> falsy (instanceUrl org) \<and> \<not> falsy (accessToken org) \<and> launchError w = None
          \<and> site w (frontdoorUrl (the (instanceUrl org)) (the (accessToken org))) = Inr d
          \<and> top d ''.slds-global-header'' = None \<and> top d ''#phHeaderLogoImage'' = None \<longrightarrow>
        fst (connect org w) = Inl (Error ''Failed to authenticate to Salesforce'')
        \<and> log (snd (connect org w))
            = log w @ [Launched, Navigated (frontdoorUrl (the (instanceUrl org)) (the (accessToken org)))]"
    by (simp add: connect_def bind_io_def launch_def goto_def isLoggedIn_def throw_io_def)
  have 3: "\<forall>e. fst (connect org w) = Inl e \<longrightarrow>
        (case SetupApply_run automations c org config w of (r, st) \<Rightarrow>
           (\<exists>e'. r = Inl e') \<and> attempted (st_calls st) = []
           \<and> st_calls st = [ConnectCall, DisconnectCall]
           \<and> st_applied st = [] \<and> st_failed st = [])"
  proof (intro allI impI)
    fix e
    assume "fst (connect org w) = Inl e"
    then have "connect org w = (Inl e, snd (connect org w))"
      by (simp add: prod_eq_iff)
    from run_connect_fails [OF this]
    show "(case SetupApply_run automations c org config w of (r, st) \<Rightarrow>
           (\<exists>e'. r = Inl e') \<and> attempted (st_calls st) = []
           \<and> st_calls st = [ConnectCall, DisconnectCall]
           \<and> st_applied st = [] \<and> st_failed st = [])"
      by (simp split: sum.splits)
  qed
  from 1 2 3 show ?thesis by blast
qed

theorem connect_failure_is_fatal_witness:
  "falsy (accessToken noToken)
   \<and> connect noToken demoWorld
       = (Inl (Error ''Unable to get Salesforce session. Please authenticate first.''), demoWorld)
   \<and> top (pageWith [(''#username'', node []), (''#password'', node [])]) ''.slds-global-header'' = None
   \<and> top (pageWith [(''#username'', node []), (''#password'', node [])]) ''#phHeaderLogoImage'' = None
   \<and> fst (connect demoOrg loggedOut) = Inl (Error ''Failed to authenticate to Salesforce'')
   \<and> log (snd (connect demoOrg loggedOut))
       = [Launched, Navigated ''https://acme.my.salesforce.com/secur/frontdoor.jsp?sid=TOKEN'']
   \<and> fst (SetupApply_run SetupAutomations True demoOrg (configWith [flowA]) loggedOut)
       = Inl (CLIError ''Configuration failed: Failed to authenticate to Salesforce'')
   \<and> st_applied (snd (SetupApply_run SetupAutomations True demoOrg (configWith [flowA]) loggedOut)) = []
   \<and> st_calls (snd (SetupApply_run SetupAutomations True demoOrg (configWith [flowA]) loggedOut))
       = [ConnectCall, DisconnectCall]"
proof -
  let ?d = "pageWith [(''#username'', node []), (''#password'', node [])]"
  let ?run = "SetupApply_run SetupAutomations True demoOrg (configWith [flowA]) loggedOut"
  have f: "falsy (accessToken noToken)"
    by (simp add: noToken_def falsy_def)
  have p: "\<not> falsy (instanceUrl demoOrg)" "\<not> falsy (accessToken demoOrg)" "launchError loggedOut = None"
    "site loggedOut (frontdoorUrl (the (instanceUrl demoOrg)) (the (accessToken demoOrg))) = Inr ?d"
    "top ?d ''.slds-global-header'' = None" "top ?d ''#phHeaderLogoImage'' = None"
    by (simp_all add: demoOrg_def falsy_def loggedOut_def demoWorld_def loginSite_def pageWith_def)
  have u: "frontdoorUrl (the (instanceUrl demoOrg)) (the (accessToken demoOrg))
             = ''https://acme.my.salesforce.com/secur/frontdoor.jsp?sid=TOKEN''"
    by (simp add: demoOrg_def frontdoorUrl_def)
  have l: "log loggedOut = []"
    by (simp add: loggedOut_def demoWorld_def)
  have r: "fst ?run = Inl (CLIError ''Configuration failed: Failed to authenticate to Salesforce'')"
    by code_simp
  note t1 = connect_failure_is_fatal [of noToken demoWorld SetupAutomations True "configWith [flowA]"]
  note t2 = connect_failure_is_fatal [of demoOrg loggedOut SetupAutomations True "configWith [flowA]"]
  from t1 f have a: "connect noToken demoWorld
       = (Inl (Error ''Unable to get Salesforce session. Please authenticate first.''), demoWorld)"
    by blast
  from t2 p have b: "fst (connect demoOrg loggedOut) = Inl (Error ''Failed to authenticate to Salesforce'')"
    "log (snd (connect demoOrg loggedOut))
       = [Launched, Navigated ''https://acme.my.salesforce.com/secur/frontdoor.jsp?sid=TOKEN'']"
    unfolding u l by auto
  from t2 [THEN conjunct2, THEN conjunct2, rule_format, OF b(1)]
  have s: "st_applied (snd ?run) = []" "st_calls (snd ?run) = [ConnectCall, DisconnectCall]"
    by (auto split: prod.splits)
  from f a p(5,6) b r s show ?thesis
    by simp
qed

section \<open>The order of execution\<close>

lemma sorted_map_const: "sorted (map (\<lambda>x. k::nat) xs)"
  by (induction xs) auto

lemma sorted_categories: "sorted (map category (operations config))"
  by (auto simp: operations_def sorted_append comp_def sorted_map_const split: option.splits)

lemma run_attempted:
  "\<exists>n. attempted (st_calls (snd (SetupApply_run automations c org config w)))
         = take n (operations config)"
proof -
  obtain n where "st_calls (snd (SetupApply_try automations c org config (initial w)))
                    = ConnectCall # map AutomationCall (take n (operations config))"
    using try_calls by blast
  then have "attempted (st_calls (snd (SetupApply_run automations c org config w)))
               = take n (operations config)"
    by (auto simp: run_finally split: prod.splits)
  then show ?thesis ..
qed

lemma setSection_commute:
  "sectionName a \<noteq> sectionName b \<Longrightarrow>
   setSection a (setSection b config) = setSection b (setSection a config)"
  by (cases a; cases b) simp_all

lemma parseConfig_order:
  assumes "distinct (map sectionName secs)" and "mset secs' = mset secs"
  shows "parseConfig secs' = parseConfig secs"
proof -
  have "setSection a \<circ> setSection b = setSection b \<circ> setSection a"
    if "a \<in> set secs" "b \<in> set secs" for a b
  proof (cases "a = b")
    case True
    then show ?thesis by simp
  next
    case False
    with that assms(1) have "sectionName a \<noteq> sectionName b"
      by (auto simp: distinct_map inj_on_def)
    then show ?thesis
      by (auto simp: fun_eq_iff setSection_commute)
  qed
  then have "fold setSection secs = fold setSection secs'"
    by (rule fold_multiset_equiv) (simp_all add: assms(2))
  then show ?thesis
    by (simp add: parseConfig_def)
qed

text \<open>
  C3. Whatever the automations do, the operations a run attempts are an initial part of
  the operations of the batch in the fixed order (all of them with \<open>continueOnError\<close> once
  the session is established), so the categories never appear out of order: session
  settings, sharing, Einstein Activity Capture, Omni-Channel, flows, org-wide emails.
  Within the sharing, flow and email categories the order is that of the document's list,
  and an absent category contributes nothing. Writing the sections of the document in
  another order changes neither the configuration read nor the run.
\<close>

theorem fixed_category_order:
  "prefix (attempted (st_calls (snd (SetupApply_run automations c org config w)))) (operations config)
   \<and> sorted (map category (attempted (st_calls (snd (SetupApply_run automations c org config w)))))
   \<and> (c \<and> (\<exists>session. fst (connect org w) = Inr session) \<longrightarrow>
        attempted (st_calls (snd (SetupApply_run automations c org config w))) = operations config)
   \<and> filter (\<lambda>op. category op = 1) (operations config)
       = map SharingSettings (case sharingSettings config of None \<Rightarrow> [] | Some entries \<Rightarrow> entries)
   \<and> filter (\<lambda>op. category op = 4) (operations config)
       = map FlowActivation (case flows config of None \<Rightarrow> [] | Some entries \<Rightarrow> entries)
   \<and> filter (\<lambda>op. category op = 5) (operations config)
       = map OrgWideEmail (case orgWideEmails config of None \<Rightarrow> [] | Some entries \<Rightarrow> entries)
   \<and> (distinct (map sectionName secs) \<and> mset secs' = mset secs \<longrightarrow>
        parseConfig secs' = parseConfig secs
        \<and> SetupApply_run automations c org (parseConfig secs') w
            = SetupApply_run automations c org (parseConfig secs) w)"
proof -
  let ?att = "attempted (st_calls (snd (SetupApply_run automations c org config w)))"
  obtain n where n: "?att = take n (operations config)"
    using run_attempted by blast
  have 1: "prefix ?att (operations config)"
    unfolding n by (rule take_is_prefix)
  have 2: "sorted (map category ?att)"
    unfolding n take_map [symmetric] by (rule sorted_wrt_take) (rule sorted_categories)
  have 3: "c \<and> (\<exists>session. fst (connect org w) = Inr session) \<longrightarrow> ?att = operations config"
  proof
    assume a: "c \<and> (\<exists>session. fst (connect org w) = Inr session)"
    then obtain session where "connect org w = (Inr session, snd (connect org w))"
      by (auto simp: prod_eq_iff)
    from run_continue [OF this] a show "?att = operations config"
      by simp
  qed
  have 4: "filter (\<lambda>op. category op = 1) (operations config)
       = map SharingSettings (case sharingSettings config of None \<Rightarrow> [] | Some entries \<Rightarrow> entries)"
    by (simp add: operations_def filter_map comp_def split: option.splits)
  have 5: "filter (\<lambda>op. category op = 4) (operations config)
       = map FlowActivation (case flows config of None \<Rightarrow> [] | Some entries \<Rightarrow> entries)"
    by (simp add: operations_def filter_map comp_def split: option.splits)
  have 6: "filter (\<lambda>op. category op = 5) (operations config)
       = map OrgWideEmail (case orgWideEmails config of None \<Rightarrow> [] | Some entries \<Rightarrow> entries)"
    by (simp add: operations_def filter_map comp_def split: option.splits)
  have 7: "distinct (map sectionName secs) \<and> mset secs' = mset secs \<longrightarrow>
        parseConfig secs' = parseConfig secs
        \<and> SetupApply_run automations c org (parseConfig secs') w
            = SetupApply_run automations c org (parseConfig secs) w"
    using parseConfig_order [of secs secs'] by simp
  from 1 2 3 4 5 6 7 show ?thesis by blast
qed

theorem fixed_category_order_witness:
  "distinct (map sectionName ordered) \<and> mset shuffled = mset ordered
   \<and> parseConfig shuffled = parseConfig ordered
   \<and> fst (connect demoOrg demoWorld) = Inr \<lparr>sessionInstanceUrl = ''https://acme.my.salesforce.com'',
                                           sessionAccessToken = ''TOKEN''\<rparr>
   \<and> attempted (st_calls (snd (SetupApply_run SetupAutomations True demoOrg (parseConfig shuffled) demoWorld)))
       = [SessionSettings demoSession, SharingSettings accountSharing,
          FlowActivation flowA, FlowActivation flowB]"
proof -
  have d: "distinct (map sectionName ordered)"
    by (simp add: ordered_def)
  have m: "mset shuffled = mset ordered"
    by (simp add: shuffled_def ordered_def)
  have c: "fst (connect demoOrg demoWorld) = Inr \<lparr>sessionInstanceUrl = ''https://acme.my.salesforce.com'',
                                                  sessionAccessToken = ''TOKEN''\<rparr>"
    by code_simp
  have o: "operations (parseConfig ordered)
             = [SessionSettings demoSession, SharingSettings accountSharing,
                FlowActivation flowA, FlowActivation flowB]"
    by code_simp
  note t = fixed_category_order [of SetupAutomations True demoOrg "parseConfig shuffled" demoWorld
                                    ordered shuffled]
  from t d m have p: "parseConfig shuffled = parseConfig ordered"
    by blast
  from t c have "attempted (st_calls (snd (SetupApply_run SetupAutomations True demoOrg
                     (parseConfig shuffled) demoWorld))) = operations (parseConfig shuffled)"
    by blast
  with d m c p o show ?thesis
    by simp
qed

section \<open>Switching a feature off\<close>

lemma untouched_refl [simp]: "untouched sel w w"
  by (simp add: untouched_def)

lemma untouched_trans: "untouched sel w w1 \<Longrightarrow> untouched sel w1 w2 \<Longrightarrow> untouched sel w w2"
  by (simp add: untouched_def)

lemma domOf_setDom_other:
  "domOf c d s \<noteq> None \<Longrightarrow> c' \<noteq> c \<Longrightarrow> domOf c' (setDom c m d) = domOf c' d"
  by (cases c; cases c') (auto simp: domOf_def setDom_def split: option.splits)

lemma clickHandle_untouched:
  assumes "s \<noteq> sel"
  shows "untouched sel w (snd (clickHandle c s w))"
proof (cases "domOf c (doc w) s")
  case None
  then show ?thesis by (simp add: clickHandle_def)
next
  case (Some el)
  have "domOf c' (setDom c ((domOf c (doc w))
                             (s \<mapsto> el\<lparr>checked := afterClick (clickEffect el) (checked el)\<rparr>)) (doc w)) sel
          = domOf c' (doc w) sel" for c'
  proof (cases "c' = c")
    case True
    with assms show ?thesis by (simp add: domOf_setDom)
  next
    case False
    with Some domOf_setDom_other [of c "doc w" s c'] show ?thesis by simp
  qed
  with Some assms show ?thesis
    by (simp add: clickHandle_def untouched_def)
qed

lemma setCheckbox_untouched:
  assumes "s \<noteq> sel"
  shows "untouched sel w (snd (setCheckbox c s d w))"
  using clickHandle_untouched [OF assms, of w c]
  by (simp add: setCheckbox_def bind_io_def waitForSelector_def return_io_def Let_def
        split: option.splits)

lemma clickButton_untouched:
  assumes "buttonSelector label \<noteq> sel"
  shows "untouched sel w (snd (clickButton c label w))"
  using clickHandle_untouched [OF assms, of w c]
  by (simp add: clickButton_def bind_io_def waitForSelector_def split: option.splits)

lemma waitForToast_world [simp]: "snd (waitForToast c expected w) = w"
  by (simp add: waitForToast_def bind_io_def waitForSelector_def return_io_def throw_io_def Let_def
        split: option.splits)

lemma discard_world [simp]: "snd (discard m w) = snd (m w)"
  by (simp add: discard_def bind_io_def return_io_def split: prod.splits sum.splits)

lemma bind_untouched:
  assumes "untouched sel w (snd (m w))"
      and "\<And>x w1. untouched sel w1 (snd (f x w1))"
  shows "untouched sel w (snd (bind_io m f w))"
proof (cases "m w")
  case (Pair r w1)
  show ?thesis
  proof (cases r)
    case (Inl e)
    with Pair assms(1) show ?thesis by (simp add: bind_io_def)
  next
    case (Inr x)
    with Pair assms(1) assms(2) [of w1 x] show ?thesis
      by (auto simp: bind_io_def intro: untouched_trans)
  qed
qed

text \<open>What both automations do once the feature is off: the switch, Save, the toast.\<close>

lemma switch_off_untouched:
  assumes "main \<noteq> sel" and "buttonSelector ''Save'' \<noteq> sel"
  shows "untouched sel w
           (snd (bind_io getSetupIframe (\<lambda>setupPage. block [
                   setCheckbox setupPage main False,
                   clickButton setupPage ''Save'',
                   discard (waitForToast setupPage None)]) w))"
proof (rule bind_untouched)
  show "untouched sel w (snd (getSetupIframe w))"
    by (simp add: getSetupIframe_def split: option.splits)
next
  fix setupPage w1
  show "untouched sel w1 (snd (block [setCheckbox setupPage main False,
                                      clickButton setupPage ''Save'',
                                      discard (waitForToast setupPage None)] w1))"
    unfolding block.simps
  proof (intro bind_untouched)
    show "untouched sel w1 (snd (setCheckbox setupPage main False w1))"
      by (rule setCheckbox_untouched) (rule assms(1))
    show "untouched sel w2 (snd (clickButton setupPage ''Save'' w2))" for w2
      by (rule clickButton_untouched) (rule assms(2))
    show "untouched sel w2 (snd (discard (waitForToast setupPage None) w2))" for w2
      by simp
    show "untouched sel w2 (snd (return_io () w2))" for w2
      by (simp add: return_io_def)
  qed
qed

lemma after_navigation:
  "snd (block [navigateToSetup path, rest] w) =
     (case navigateToSetup path w of (Inl e, w1) \<Rightarrow> w1 | (Inr u, w1) \<Rightarrow> snd (rest w1))"
  by (simp add: bind_io_def split: prod.splits sum.splits)

lemma switch_off_after_navigation:
  assumes "main \<noteq> sel" and "buttonSelector ''Save'' \<noteq> sel"
  shows "untouched sel (snd (navigateToSetup path w))
           (snd (block [navigateToSetup path,
                        bind_io getSetupIframe (\<lambda>setupPage. block [
                          setCheckbox setupPage main False,
                          clickButton setupPage ''Save'',
                          discard (waitForToast setupPage None)])] w))"
proof (cases "navigateToSetup path w")
  case (Pair r w1)
  show ?thesis
  proof (cases r)
    case (Inl e)
    with Pair show ?thesis by (simp only: after_navigation) simp
  next
    case (Inr u)
    with Pair switch_off_untouched [OF assms, of w1] show ?thesis
      by (simp only: after_navigation) simp
  qed
qed

text \<open>
  C10. When \<open>enabled\<close> is false, \<open>configureEinsteinActivityCapture\<close> and
  \<open>configureOmniChannel\<close> do what they do for options without sub-options: after the
  navigation they set the main switch off, click Save and await the toast. The controls
  of the sub-options are left as the loaded page has them, with no click on them, in the
  page and in the setup frame.
\<close>

theorem disabled_feature_ignores_suboptions:
  "(\<not> eacEnabled eac \<longrightarrow>
      configureEinsteinActivityCapture eac
        = configureEinsteinActivityCapture (eac\<lparr>captureEmails := None, captureEvents := None\<rparr>)
      \<and> configureEinsteinActivityCapture eac
        = block [navigateToSetup ''ActivitySyncEngineSettings'',
                 bind_io getSetupIframe (\<lambda>setupPage. block [
                   setCheckbox setupPage ''input[type=\"checkbox\"][id*=\"activityCapture\"]'' False,
                   clickButton setupPage ''Save'',
                   discard (waitForToast setupPage None)])]
      \<and> untouched ''input[type=\"checkbox\"][id*=\"emailCapture\"]''
           (snd (navigateToSetup ''ActivitySyncEngineSettings'' w))
           (snd (configureEinsteinActivityCapture eac w))
      \<and> untouched ''input[type=\"checkbox\"][id*=\"eventCapture\"]''
           (snd (navigateToSetup ''ActivitySyncEngineSettings'' w))
           (snd (configureEinsteinActivityCapture eac w)))
   \<and> (\<not> omniEnabled omni \<longrightarrow>
      configureOmniChannel omni
        = configureOmniChannel (omni\<lparr>enableSkillBasedRouting := None, enableExternalRouting := None\<rparr>)
      \<and> configureOmniChannel omni
        = block [navigateToSetup ''OmniChannelSettings'',
                 bind_io getSetupIframe (\<lambda>setupPage. block [
                   setCheckbox setupPage ''input[type=\"checkbox\"][id*=\"enableOmni\"]'' False,
                   clickButton setupPage ''Save'',
                   discard (waitForToast setupPage None)])]
      \<and> untouched ''input[type=\"checkbox\"][id*=\"skillBased\"]''
           (snd (navigateToSetup ''OmniChannelSettings'' w))
           (snd (configureOmniChannel omni w))
      \<and> untouched ''input[type=\"checkbox\"][id*=\"externalRouting\"]''
           (snd (navigateToSetup ''OmniChannelSettings'' w))
           (snd (configureOmniChannel omni w)))"
proof (intro conjI impI)
  assume off: "\<not> eacEnabled eac"
  show "configureEinsteinActivityCapture eac
        = configureEinsteinActivityCapture (eac\<lparr>captureEmails := None, captureEvents := None\<rparr>)"
    using off by (simp add: configureEinsteinActivityCapture_def when_io_def)
  show e: "configureEinsteinActivityCapture eac
        = block [navigateToSetup ''ActivitySyncEngineSettings'',
                 bind_io getSetupIframe (\<lambda>setupPage. block [
                   setCheckbox setupPage ''input[type=\"checkbox\"][id*=\"activityCapture\"]'' False,
                   clickButton setupPage ''Save'',
                   discard (waitForToast setupPage None)])]"
    using off by (simp add: configureEinsteinActivityCapture_def when_io_def)
  show "untouched ''input[type=\"checkbox\"][id*=\"emailCapture\"]''
           (snd (navigateToSetup ''ActivitySyncEngineSettings'' w))
           (snd (configureEinsteinActivityCapture eac w))"
    unfolding e by (rule switch_off_after_navigation) (simp_all add: buttonSelector_def)
  show "untouched ''input[type=\"checkbox\"][id*=\"eventCapture\"]''
           (snd (navigateToSetup ''ActivitySyncEngineSettings'' w))
           (snd (configureEinsteinActivityCapture eac w))"
    unfolding e by (rule switch_off_after_navigation) (simp_all add: buttonSelector_def)
next
  assume off: "\<not> omniEnabled omni"
  show "configureOmniChannel omni
        = configureOmniChannel (omni\<lparr>enableSkillBasedRouting := None, enableExternalRouting := None\<rparr>)"
    using off by (simp add: configureOmniChannel_def when_io_def)
  show e: "configureOmniChannel omni
        = block [navigateToSetup ''OmniChannelSettings'',
                 bind_io getSetupIframe (\<lambda>setupPage. block [
                   setCheckbox setupPage ''input[type=\"checkbox\"][id*=\"enableOmni\"]'' False,
                   clickButton setupPage ''Save'',
                   discard (waitForToast setupPage None)])]"
    using off by (simp add: configureOmniChannel_def when_io_def)
  show "untouched ''input[type=\"checkbox\"][id*=\"skillBased\"]''
           (snd (navigateToSetup ''OmniChannelSettings'' w))
           (snd (configureOmniChannel omni w))"
    unfolding e by (rule switch_off_after_navigation) (simp_all add: buttonSelector_def)
  show "untouched ''input[type=\"checkbox\"][id*=\"externalRouting\"]''
           (snd (navigateToSetup ''OmniChannelSettings'' w))
           (snd (configureOmniChannel omni w))"
    unfolding e by (rule switch_off_after_navigation) (simp_all add: buttonSelector_def)
qed
theorem disabled_feature_ignores_suboptions_witness:
  "\<not> eacEnabled eacOff \<and> captureEmails eacOff = Some True \<and> captureEvents eacOff = Some True
   \<and> log (snd (configureEinsteinActivityCapture eacOff (snd (connect demoOrg demoWorld))))
       = [Launched,
          Navigated ''https://acme.my.salesforce.com/secur/frontdoor.jsp?sid=TOKEN'',
          Navigated ''https://acme.my.salesforce.com/lightning/setup/ActivitySyncEngineSettings/home'',
          Clicked Top ''input[type=\"checkbox\"][id*=\"activityCapture\"]'',
          Clicked Top (buttonSelector ''Save'')]
   \<and> untouched ''input[type=\"checkbox\"][id*=\"emailCapture\"]''
         (snd (navigateToSetup ''ActivitySyncEngineSettings'' (snd (connect demoOrg demoWorld))))
         (snd (configureEinsteinActivityCapture eacOff (snd (connect demoOrg demoWorld))))
   \<and> untouched ''input[type=\"checkbox\"][id*=\"eventCapture\"]''
         (snd (navigateToSetup ''ActivitySyncEngineSettings'' (snd (connect demoOrg demoWorld))))
         (snd (configureEinsteinActivityCapture eacOff (snd (connect demoOrg demoWorld))))
   \<and> \<not> omniEnabled omniOff
   \<and> log (snd (configureOmniChannel omniOff (snd (connect demoOrg demoWorld))))
       = [Launched,
          Navigated ''https://acme.my.salesforce.com/secur/frontdoor.jsp?sid=TOKEN'',
          Navigated ''https://acme.my.salesforce.com/lightning/setup/OmniChannelSettings/home'',
          Clicked Top ''input[type=\"checkbox\"][id*=\"enableOmni\"]'',
          Clicked Top (buttonSelector ''Save'')]
   \<and> untouched ''input[type=\"checkbox\"][id*=\"skillBased\"]''
         (snd (navigateToSetup ''OmniChannelSettings'' (snd (connect demoOrg demoWorld))))
         (snd (configureOmniChannel omniOff (snd (connect demoOrg demoWorld))))
   \<and> untouched ''input[type=\"checkbox\"][id*=\"externalRouting\"]''
         (snd (navigateToSetup ''OmniChannelSettings'' (snd (connect demoOrg demoWorld))))
         (snd (configureOmniChannel omniOff (snd (connect demoOrg demoWorld))))"
proof -
  let ?w = "snd (connect demoOrg demoWorld)"
  have off: "\<not> eacEnabled eacOff" "captureEmails eacOff = Some True" "captureEvents eacOff = Some True"
            "\<not> omniEnabled omniOff"
    by (simp_all add: eacOff_def omniOff_def)
  have l1: "log (snd (configureEinsteinActivityCapture eacOff ?w))
       = [Launched,
          Navigated ''https://acme.my.salesforce.com/secur/frontdoor.jsp?sid=TOKEN'',
          Navigated ''https://acme.my.salesforce.com/lightning/setup/ActivitySyncEngineSettings/home'',
          Clicked Top ''input[type=\"checkbox\"][id*=\"activityCapture\"]'',
          Clicked Top (buttonSelector ''Save'')]"
    by code_simp
  have l2: "log (snd (configureOmniChannel omniOff ?w))
       = [Launched,
          Navigated ''https://acme.my.salesforce.com/secur/frontdoor.jsp?sid=TOKEN'',
          Navigated ''https://acme.my.salesforce.com/lightning/setup/OmniChannelSettings/home'',
          Clicked Top ''input[type=\"checkbox\"][id*=\"enableOmni\"]'',
          Clicked Top (buttonSelector ''Save'')]"
    by code_simp
  from disabled_feature_ignores_suboptions [of eacOff ?w omniOff] off l1 l2
  show ?thesis by blast
qed

end
